theory Spec2Isabelle
  imports Main "HOL-Library.AList" "HOL-Library.Word"
begin

section \<open>Common conventions\<close>

text \<open>
  Instants (Go's \<open>time.Time\<close>) and durations (\<open>time.Duration\<close>) are integers
  counting nanoseconds; the instant \<open>0\<close> is Go's zero \<open>Time\<close>, the one for which
  \<open>IsZero\<close> holds. Every operation that reads \<open>time.Now()\<close> takes the instant it
  reads as its first argument. \<open>a.After(b)\<close> is \<open>b < a\<close>, \<open>a.Before(b)\<close> is
  \<open>a < b\<close>, \<open>a.Add(d)\<close> is \<open>a + d\<close>, \<open>time.Since(a)\<close> at \<open>now\<close> is \<open>now - a\<close>.

  A Go map is an association list with one pair per key: \<open>map_of\<close> is the lookup,
  \<open>AList.update\<close> the assignment \<open>m[k] = v\<close>, \<open>AList.delete\<close> the builtin
  \<open>delete(m, k)\<close>, and a \<open>range\<close> loop visits the pairs in list order (one of the
  orders Go may choose).

  Go's \<open>int\<close> has 64 bits (on the 64-bit platforms the project is built for): a value
  is an integer from \<open>- (2 ^ 63)\<close> up to \<open>2 ^ 63 - 1\<close>, and \<open>go_int\<close> is the
  wrap-around that brings the exact result of an operation back into that range. It is
  written out where a configured value is multiplied. The counters only ever go up by
  one from zero and would need \<open>2 ^ 63\<close> increments to wrap.
\<close>

type_synonym time = int
type_synonym duration = int

definition go_int :: "int \<Rightarrow> int" where
  \<comment> \<open>the 64-bit two's complement value of an exact result\<close>
  "go_int x = (x + 9223372036854775808) mod 18446744073709551616 - 9223372036854775808"

definition go_get_int :: "(string \<times> int) list \<Rightarrow> string \<Rightarrow> int" where
  \<comment> \<open>\<open>m[k]\<close> on a \<open>map[string]int\<close>: the zero value when the key is absent\<close>
  "go_get_int m k = (case map_of m k of Some v \<Rightarrow> v | None \<Rightarrow> 0)"

definition go_get_bool :: "(string \<times> bool) list \<Rightarrow> string \<Rightarrow> bool" where
  \<comment> \<open>\<open>m[k]\<close> on a \<open>map[string]bool\<close>\<close>
  "go_get_bool m k = (case map_of m k of Some v \<Rightarrow> v | None \<Rightarrow> False)"

section \<open>The ban tracker (internal/manager/ipban.go)\<close>

record BanRecord =
  IP :: string
  BannedAt :: time
  ExpiresAt :: time
  FailCount :: int

record IPBanManager =
  bannedIPs :: "(string \<times> time) list"
  bannedFailCount :: "(string \<times> int) list"
  failureCounts :: "(string \<times> int) list"
  maxFailures :: int
  banDuration :: duration
  whitelist :: "(string \<times> bool) list"

definition IsBanned :: "time \<Rightarrow> string \<Rightarrow> IPBanManager \<Rightarrow> bool" where
  "IsBanned now ip m =
     (if go_get_bool (whitelist m) ip then False
      else case map_of (bannedIPs m) ip of
             None \<Rightarrow> False
           | Some expiry \<Rightarrow> if expiry < now then False else True)"

text \<open>
  \<open>IPBanManager_RecordFailure\<close> also starts \<open>saveToFile\<close> in a goroutine when a ban fires; the
  file is not part of the manager's state and is modelled by \<open>saveToFile\<close> below.
\<close>

definition IPBanManager_RecordFailure :: "time \<Rightarrow> string \<Rightarrow> IPBanManager \<Rightarrow> IPBanManager" where
  "IPBanManager_RecordFailure now ip m =
     (if go_get_bool (whitelist m) ip then m
      else
        let c = go_get_int (failureCounts m) ip + 1;
            m1 = m\<lparr>failureCounts := AList.update ip c (failureCounts m)\<rparr>
        in if maxFailures m1 \<le> go_get_int (failureCounts m1) ip then
             m1\<lparr>bannedFailCount :=
                   AList.update ip (go_get_int (failureCounts m1) ip) (bannedFailCount m1),
                 bannedIPs := AList.update ip (now + banDuration m1) (bannedIPs m1),
                 failureCounts := AList.delete ip (failureCounts m1)\<rparr>
           else m1)"

definition IPBanManager_RecordSuccess :: "string \<Rightarrow> IPBanManager \<Rightarrow> IPBanManager" where
  "IPBanManager_RecordSuccess ip m = m\<lparr>failureCounts := AList.delete ip (failureCounts m)\<rparr>"

definition UnbanIP :: "string \<Rightarrow> IPBanManager \<Rightarrow> IPBanManager" where
  "UnbanIP ip m =
     m\<lparr>bannedIPs := AList.delete ip (bannedIPs m),
       bannedFailCount := AList.delete ip (bannedFailCount m),
       failureCounts := AList.delete ip (failureCounts m)\<rparr>"

definition GetBannedIPs :: "time \<Rightarrow> IPBanManager \<Rightarrow> string list" where
  "GetBannedIPs now m = map fst (filter (\<lambda>(ip, expiry). now < expiry) (bannedIPs m))"

definition GetFailureCount :: "string \<Rightarrow> IPBanManager \<Rightarrow> int" where
  "GetFailureCount ip m = go_get_int (failureCounts m) ip"

text \<open>
  \<open>saveToFile\<close>: the records written, in the order the two loops produce them. The
  file is the list of records (the JSON encoding and the file system are not modelled).
\<close>

definition ban_record_of :: "IPBanManager \<Rightarrow> string \<times> time \<Rightarrow> BanRecord" where
  "ban_record_of m = (\<lambda>(ip, expiry).
     \<lparr>IP = ip, BannedAt = expiry - banDuration m, ExpiresAt = expiry,
      FailCount = (case map_of (bannedFailCount m) ip of Some failCount \<Rightarrow> failCount | None \<Rightarrow> 0)\<rparr>)"

fun add_failure_records :: "(string \<times> int) list \<Rightarrow> BanRecord list \<Rightarrow> BanRecord list" where
  "add_failure_records [] records = records"
| "add_failure_records ((ip, count) # rest) records =
     (let found = list_ex (\<lambda>r. IP r = ip) records
      in add_failure_records rest
           (if \<not> found \<and> 0 < count
            then records @ [\<lparr>IP = ip, BannedAt = 0, ExpiresAt = 0, FailCount = count\<rparr>]
            else records))"

definition saveToFile :: "time \<Rightarrow> IPBanManager \<Rightarrow> BanRecord list" where
  "saveToFile now m =
     add_failure_records (failureCounts m)
       (map (ban_record_of m) (filter (\<lambda>(ip, expiry). now < expiry) (bannedIPs m)))"

fun restore_records :: "time \<Rightarrow> BanRecord list \<Rightarrow> IPBanManager \<Rightarrow> IPBanManager" where
  "restore_records now [] m = m"
| "restore_records now (r # rs) m =
     restore_records now rs
       (if ExpiresAt r \<noteq> 0 \<and> now < ExpiresAt r then
          (let m1 = m\<lparr>bannedIPs := AList.update (IP r) (ExpiresAt r) (bannedIPs m)\<rparr>
           in if 0 < FailCount r
              then m1\<lparr>bannedFailCount := AList.update (IP r) (FailCount r) (bannedFailCount m1)\<rparr>
              else m1)
        else if 0 < FailCount r then
          m\<lparr>failureCounts := AList.update (IP r) (FailCount r) (failureCounts m)\<rparr>
        else m)"

definition loadFromFile :: "time \<Rightarrow> BanRecord list option \<Rightarrow> IPBanManager \<Rightarrow> IPBanManager" where
  \<comment> \<open>\<open>None\<close>: the file does not exist, which is not an error\<close>
  "loadFromFile now file m = (case file of None \<Rightarrow> m | Some records \<Rightarrow> restore_records now records m)"

definition NewIPBanManager ::
  "time \<Rightarrow> BanRecord list option \<Rightarrow> int \<Rightarrow> duration \<Rightarrow> string list \<Rightarrow> IPBanManager" where
  "NewIPBanManager now file maxFailures' banDuration' whitelist' =
     loadFromFile now file
       \<lparr>bannedIPs = [], bannedFailCount = [], failureCounts = [],
        maxFailures = maxFailures', banDuration = banDuration',
        whitelist = fold (\<lambda>ip wl. AList.update ip True wl) whitelist' []\<rparr>"

text \<open>A run of \<open>IPBanManager_RecordFailure(ip)\<close> calls, one per instant of the list.\<close>

definition record_failures :: "string \<Rightarrow> time list \<Rightarrow> IPBanManager \<Rightarrow> IPBanManager" where
  "record_failures ip ts m = fold (\<lambda>t. IPBanManager_RecordFailure t ip) ts m"

definition failure_record_of :: "string \<times> int \<Rightarrow> BanRecord" where
  \<comment> \<open>the record \<open>saveToFile\<close> appends for an IP that has failures and no live ban\<close>
  "failure_record_of = (\<lambda>(ip, count). \<lparr>IP = ip, BannedAt = 0, ExpiresAt = 0, FailCount = count\<rparr>)"

definition live_record :: "time \<Rightarrow> BanRecord \<Rightarrow> bool" where
  \<comment> \<open>the test of \<open>loadFromFile\<close>: \<open>!record.ExpiresAt.IsZero() && now.Before(record.ExpiresAt)\<close>\<close>
  "live_record now r = (ExpiresAt r \<noteq> 0 \<and> now < ExpiresAt r)"

definition live_bans :: "time \<Rightarrow> IPBanManager \<Rightarrow> (string \<times> time) list" where
  \<comment> \<open>the entries of \<open>bannedIPs\<close> that \<open>saveToFile\<close> keeps\<close>
  "live_bans now m = filter (\<lambda>(ip, expiry). now < expiry) (bannedIPs m)"

definition positive_count :: "(string \<times> int) list \<Rightarrow> string \<Rightarrow> int option" where
  \<comment> \<open>a counter map restricted to its entries with a positive count\<close>
  "positive_count m ip = (case map_of m ip of Some c \<Rightarrow> if 0 < c then Some c else None | None \<Rightarrow> None)"

text \<open>
  Saving at \<open>t_save\<close>, then building a fresh manager with the same limits at \<open>t_load\<close>
  from the saved file.
\<close>

definition reload :: "time \<Rightarrow> time \<Rightarrow> string list \<Rightarrow> IPBanManager \<Rightarrow> IPBanManager" where
  "reload t_save t_load wl m =
     NewIPBanManager t_load (Some (saveToFile t_save m)) (maxFailures m) (banDuration m) wl"

text \<open>Sequences of tracker operations, each stamped with the instant it runs at.\<close>

datatype ban_op = Failure string | Success string | Unban string

fun apply_ban_op :: "time \<Rightarrow> ban_op \<Rightarrow> IPBanManager \<Rightarrow> IPBanManager" where
  "apply_ban_op now (Failure ip) m = IPBanManager_RecordFailure now ip m"
| "apply_ban_op now (Success ip) m = IPBanManager_RecordSuccess ip m"
| "apply_ban_op now (Unban ip) m = UnbanIP ip m"

definition run_ban_ops :: "(time \<times> ban_op) list \<Rightarrow> IPBanManager \<Rightarrow> IPBanManager" where
  "run_ban_ops ops m = fold (\<lambda>(t, op). apply_ban_op t op) ops m"

definition counted_and_banned :: "time \<Rightarrow> IPBanManager \<Rightarrow> string \<Rightarrow> bool" where
  \<comment> \<open>the IP has a failure counter and, at \<open>now\<close>, a ban that has not expired
      (expired as \<open>IsBanned\<close> reads it: \<open>now.After(expiry)\<close>)\<close>
  "counted_and_banned now m ip =
     (map_of (failureCounts m) ip \<noteq> None \<and>
      (case map_of (bannedIPs m) ip of None \<Rightarrow> False | Some expiry \<Rightarrow> \<not> expiry < now))"

fun failures_admitted :: "(time \<times> ban_op) list \<Rightarrow> IPBanManager \<Rightarrow> bool" where
  \<comment> \<open>every \<open>IPBanManager_RecordFailure(ip)\<close> of the run happens while \<open>IsBanned(ip)\<close> is false\<close>
  "failures_admitted [] m = True"
| "failures_admitted ((t, op) # rest) m =
     ((case op of Failure ip \<Rightarrow> \<not> IsBanned t ip m | _ \<Rightarrow> True)
      \<and> failures_admitted rest (apply_ban_op t op m))"

section \<open>The circuit breaker (internal/manager/breaker.go)\<close>

datatype CircuitBreakerState = StateClosed | StateOpen | StateHalfOpen

record requestRecord =
  timestamp :: time
  success :: bool

text \<open>
  \<open>failureThreshold\<close> is a \<open>float64\<close> holding a whole percentage (it is only ever set
  by \<open>float64(failureThresholdPercent)\<close>), modelled by that integer.
\<close>

record CircuitBreaker =
  state :: CircuitBreakerState
  failureThreshold :: int
  windowSize :: duration
  minRequests :: int
  breakDuration :: duration
  requests :: "requestRecord list"
  lastStateChange :: time
  consecutiveSuccesses :: int
  halfOpenMaxRequests :: int

definition NewCircuitBreaker :: "time \<Rightarrow> int \<Rightarrow> duration \<Rightarrow> int \<Rightarrow> duration \<Rightarrow> CircuitBreaker" where
  "NewCircuitBreaker now failureThresholdPercent windowSize' minRequests' breakDuration' =
     \<lparr>state = StateClosed,
      failureThreshold = failureThresholdPercent,
      windowSize = windowSize',
      minRequests = minRequests',
      breakDuration = breakDuration',
      requests = [],
      lastStateChange = now,
      consecutiveSuccesses = 0,
      halfOpenMaxRequests = 3\<rparr>"

definition CircuitBreaker_IsOpen :: "time \<Rightarrow> CircuitBreaker \<Rightarrow> bool" where
  "CircuitBreaker_IsOpen now cb =
     (if state cb = StateOpen then
        (if breakDuration cb \<le> now - lastStateChange cb then False else True)
      else False)"

definition CircuitBreaker_GetState :: "time \<Rightarrow> CircuitBreaker \<Rightarrow> CircuitBreakerState" where
  "CircuitBreaker_GetState now cb =
     (if state cb = StateOpen \<and> breakDuration cb \<le> now - lastStateChange cb
      then StateHalfOpen else state cb)"

definition cleanup :: "time \<Rightarrow> CircuitBreaker \<Rightarrow> CircuitBreaker" where
  "cleanup now cb =
     (let cutoff = now + (- windowSize cb)
      in cb\<lparr>requests := filter (\<lambda>req. cutoff < timestamp req) (requests cb)\<rparr>)"

text \<open>
  \<open>shouldOpen\<close> compares \<open>float64(failures) * 100.0 / float64(len(cb.requests))\<close> with
  the threshold. The quotient of two integers is at least an integer threshold exactly
  when \<open>threshold * total \<le> failures * 100\<close>; the rounded \<open>float64\<close> quotient agrees
  with that for every window below \<open>2 ^ 53 / 100\<close> records. With an empty window the
  quotient is \<open>NaN\<close> and the comparison is false.
\<close>

definition shouldOpen :: "CircuitBreaker \<Rightarrow> bool" where
  "shouldOpen cb =
     (if state cb \<noteq> StateClosed then False
      else if int (length (requests cb)) < minRequests cb then False
      else
        let failures = int (length (filter (\<lambda>req. \<not> success req) (requests cb)))
        in requests cb \<noteq> [] \<and>
           failureThreshold cb * int (length (requests cb)) \<le> failures * 100)"

definition CircuitBreaker_RecordSuccess :: "time \<Rightarrow> CircuitBreaker \<Rightarrow> CircuitBreaker" where
  "CircuitBreaker_RecordSuccess now cb =
     (let cb1 = cb\<lparr>requests := requests cb @ [\<lparr>timestamp = now, success = True\<rparr>]\<rparr>;
          cb2 = (if state cb1 = StateHalfOpen then
                   (let cb' = cb1\<lparr>consecutiveSuccesses := consecutiveSuccesses cb1 + 1\<rparr>
                    in if halfOpenMaxRequests cb' \<le> consecutiveSuccesses cb'
                       then cb'\<lparr>state := StateClosed, lastStateChange := now,
                                consecutiveSuccesses := 0\<rparr>
                       else cb')
                 else cb1)
      in cleanup now cb2)"

definition CircuitBreaker_RecordFailure :: "time \<Rightarrow> CircuitBreaker \<Rightarrow> CircuitBreaker" where
  "CircuitBreaker_RecordFailure now cb =
     (let cb1 = cb\<lparr>requests := requests cb @ [\<lparr>timestamp = now, success = False\<rparr>]\<rparr>
      in if state cb1 = StateHalfOpen then
           cleanup now (cb1\<lparr>state := StateOpen, lastStateChange := now, consecutiveSuccesses := 0\<rparr>)
         else
           (let cb2 = cleanup now cb1
            in if shouldOpen cb2 then cb2\<lparr>state := StateOpen, lastStateChange := now\<rparr> else cb2))"

text \<open>
  \<open>Call\<close> is the one place that stores \<open>StateHalfOpen\<close> in the \<open>state\<close> field. Its
  argument \<open>fn\<close> is modelled by the error it returns (\<open>None\<close> for \<open>nil\<close>); \<open>now\<close> is
  the instant of the state check and of the stored transition, \<open>now'\<close> the instant the
  outcome is recorded.
\<close>

datatype 'e call_error = ErrCircuitBreakerOpen | FnError 'e

definition Call :: "time \<Rightarrow> time \<Rightarrow> 'e option \<Rightarrow> CircuitBreaker \<Rightarrow> 'e call_error option \<times> CircuitBreaker" where
  "Call now now' fn cb =
     (let currentState = CircuitBreaker_GetState now cb
      in if currentState = StateOpen then (Some ErrCircuitBreakerOpen, cb)
         else
           (let cb1 = (if currentState = StateHalfOpen then
                         (if state cb = StateOpen \<and> breakDuration cb \<le> now - lastStateChange cb
                          then cb\<lparr>state := StateHalfOpen, lastStateChange := now\<rparr> else cb)
                       else cb)
            in case fn of
                 Some err \<Rightarrow> (Some (FnError err), CircuitBreaker_RecordFailure now' cb1)
               | None \<Rightarrow> (None, CircuitBreaker_RecordSuccess now' cb1)))"

definition GetStats :: "CircuitBreaker \<Rightarrow> int \<times> int" where
  \<comment> \<open>\<open>total\<close> and \<open>failures\<close>; the \<open>float64\<close> failure rate is their quotient times 100\<close>
  "GetStats cb =
     (if requests cb = [] then (0, 0)
      else (int (length (requests cb)), int (length (filter (\<lambda>req. \<not> success req) (requests cb)))))"

text \<open>Runs of recorded outcomes, one per instant of the list.\<close>

definition record_successes :: "time list \<Rightarrow> CircuitBreaker \<Rightarrow> CircuitBreaker" where
  "record_successes ts cb = fold CircuitBreaker_RecordSuccess ts cb"

definition breaker_failures :: "time list \<Rightarrow> CircuitBreaker \<Rightarrow> CircuitBreaker" where
  "breaker_failures ts cb = fold CircuitBreaker_RecordFailure ts cb"

text \<open>
  The set-up of the repository's tests \<open>TestCircuitBreaker_HalfOpen\<close> and
  \<open>TestCircuitBreaker_HalfOpenFailure\<close>, in milliseconds: threshold 50 percent, window
  1000, minimum 5 requests, break 500; three successes, then five failures.
\<close>

definition opened_breaker :: CircuitBreaker where
  "opened_breaker =
     breaker_failures [4, 5, 6, 7, 8] (record_successes [1, 2, 3] (NewCircuitBreaker 0 50 1000 5 500))"

section \<open>The rate limiter (internal/middleware/ratelimit.go)\<close>

text \<open>
  Modelled from the spec: the token bucket \<open>rate.Limiter\<close> of \<open>golang.org/x/time/rate\<close>,
  a dependency that is not part of the repository. Section 4.2: a bucket is a
  \<open>(rate_per_second, burst)\<close> pair accumulating tokens at \<open>rate\<close> up to a ceiling of
  \<open>burst\<close>; \<open>Allow()\<close> consumes one token and returns true if one was available, else
  returns false. Tokens are counted in billionths of a token, the amount that a rate of
  one token per second adds each nanosecond; a new bucket is full.
\<close>

record Limiter =
  lim_rate :: int
  lim_burst :: int
  lim_tokens :: int
  lim_last :: time

definition NewLimiter :: "int \<Rightarrow> int \<Rightarrow> Limiter" where
  "NewLimiter r b = \<lparr>lim_rate = r, lim_burst = b, lim_tokens = b * 1000000000, lim_last = 0\<rparr>"

definition Limiter_Allow :: "time \<Rightarrow> Limiter \<Rightarrow> bool \<times> Limiter" where
  "Limiter_Allow now lim =
     (let elapsed = max 0 (now - lim_last lim);
          avail = min (lim_burst lim * 1000000000) (lim_tokens lim + elapsed * lim_rate lim)
      in if 1000000000 \<le> avail
         then (True, lim\<lparr>lim_tokens := avail - 1000000000, lim_last := now\<rparr>)
         else (False, lim\<lparr>lim_tokens := avail, lim_last := now\<rparr>))"

text \<open>
  The middleware. \<open>perIPLimiters\<close> maps an IP to a pointer to its bucket; consuming a
  token mutates the bucket behind the pointer, which the model writes back into the map.
  \<open>Allow\<close> takes the instants at which the global and the per-IP bucket read the clock.
\<close>

record RateLimitMiddleware =
  rl_enabled :: bool
  globalLimiter :: "Limiter option"
  perIPLimiters :: "(string \<times> Limiter) list"
  perIPLimit :: int
  perIPBurst :: int

definition NewRateLimitMiddleware :: "bool \<Rightarrow> int \<Rightarrow> int \<Rightarrow> RateLimitMiddleware" where
  "NewRateLimitMiddleware enabled globalRPS perIPRPS =
     \<lparr>rl_enabled = enabled,
      globalLimiter = (if enabled \<and> 0 < globalRPS
                       then Some (NewLimiter globalRPS (go_int (globalRPS * 2))) else None),
      perIPLimiters = [],
      perIPLimit = perIPRPS,
      perIPBurst = go_int (perIPRPS * 2)\<rparr>"

definition getIPLimiter :: "string \<Rightarrow> RateLimitMiddleware \<Rightarrow> Limiter \<times> RateLimitMiddleware" where
  "getIPLimiter ip r =
     (case map_of (perIPLimiters r) ip of
        Some limiter \<Rightarrow> (limiter, r)
      | None \<Rightarrow>
          (let limiter = NewLimiter (perIPLimit r) (perIPBurst r)
           in (limiter, r\<lparr>perIPLimiters := AList.update ip limiter (perIPLimiters r)\<rparr>)))"

definition allow_per_ip :: "time \<Rightarrow> string \<Rightarrow> RateLimitMiddleware \<Rightarrow> bool \<times> RateLimitMiddleware" where
  \<comment> \<open>the last two lines of \<open>Allow\<close>: \<open>limiter := r.getIPLimiter(ip); return limiter.Allow()\<close>\<close>
  "allow_per_ip now ip r =
     (case getIPLimiter ip r of (limiter, r1) \<Rightarrow>
        (case Limiter_Allow now limiter of (ok, limiter') \<Rightarrow>
           (ok, r1\<lparr>perIPLimiters := AList.update ip limiter' (perIPLimiters r1)\<rparr>)))"

definition RateLimitMiddleware_Allow ::
  "time \<Rightarrow> time \<Rightarrow> string \<Rightarrow> RateLimitMiddleware \<Rightarrow> bool \<times> RateLimitMiddleware" where
  "RateLimitMiddleware_Allow now now' ip r =
     (if \<not> rl_enabled r then (True, r)
      else case globalLimiter r of
             None \<Rightarrow> allow_per_ip now' ip r
           | Some g \<Rightarrow>
               (case Limiter_Allow now g of (ok, g') \<Rightarrow>
                  if \<not> ok then (False, r\<lparr>globalLimiter := Some g'\<rparr>)
                  else allow_per_ip now' ip (r\<lparr>globalLimiter := Some g'\<rparr>)))"

text \<open>A history of \<open>Allow\<close> calls: the two instants and the IP of each.\<close>

definition allow_calls :: "(time \<times> time \<times> string) list \<Rightarrow> RateLimitMiddleware \<Rightarrow> RateLimitMiddleware" where
  "allow_calls calls r = fold (\<lambda>(now, now', ip) r. snd (RateLimitMiddleware_Allow now now' ip r)) calls r"

definition ip_bucket :: "int \<Rightarrow> int \<Rightarrow> string \<Rightarrow> RateLimitMiddleware \<Rightarrow> Limiter" where
  \<comment> \<open>the bucket of an IP: the stored one, or a new one of the given rate and burst\<close>
  "ip_bucket rps b ip r =
     (case map_of (perIPLimiters r) ip of Some limiter \<Rightarrow> limiter | None \<Rightarrow> NewLimiter rps b)"

section \<open>The middlewares (internal/middleware)\<close>

record AuthMiddleware =
  am_enabled :: bool
  credentials :: "(string \<times> string) list"

definition Authenticate :: "string \<Rightarrow> string \<Rightarrow> AuthMiddleware \<Rightarrow> bool" where
  "Authenticate username password a =
     (if \<not> am_enabled a then True
      else case map_of (credentials a) username of
             None \<Rightarrow> False
           | Some expectedPassword \<Rightarrow> expectedPassword = password)"

definition AuthMiddleware_IsEnabled :: "AuthMiddleware \<Rightarrow> bool" where
  "AuthMiddleware_IsEnabled a = am_enabled a"

record IPBanMiddleware =
  im_enabled :: bool
  manager :: IPBanManager

definition IsBlocked :: "time \<Rightarrow> string \<Rightarrow> IPBanMiddleware \<Rightarrow> bool" where
  "IsBlocked now ip i = (if \<not> im_enabled i then False else IsBanned now ip (manager i))"

definition IPBanMiddleware_RecordAuthFailure :: "time \<Rightarrow> string \<Rightarrow> IPBanMiddleware \<Rightarrow> IPBanMiddleware" where
  "IPBanMiddleware_RecordAuthFailure now ip i =
     (if \<not> im_enabled i then i else i\<lparr>manager := IPBanManager_RecordFailure now ip (manager i)\<rparr>)"

definition IPBanMiddleware_RecordAuthSuccess :: "string \<Rightarrow> IPBanMiddleware \<Rightarrow> IPBanMiddleware" where
  "IPBanMiddleware_RecordAuthSuccess ip i =
     (if \<not> im_enabled i then i else i\<lparr>manager := IPBanManager_RecordSuccess ip (manager i)\<rparr>)"

record CircuitBreakerMiddleware =
  cm_enabled :: bool
  breaker :: CircuitBreaker

definition CircuitBreakerMiddleware_IsOpen :: "time \<Rightarrow> CircuitBreakerMiddleware \<Rightarrow> bool" where
  "CircuitBreakerMiddleware_IsOpen now c =
     (if \<not> cm_enabled c then False else CircuitBreaker_IsOpen now (breaker c))"

definition CircuitBreakerMiddleware_RecordAuthFailure ::
  "time \<Rightarrow> CircuitBreakerMiddleware \<Rightarrow> CircuitBreakerMiddleware" where
  "CircuitBreakerMiddleware_RecordAuthFailure now c =
     (if \<not> cm_enabled c then c else c\<lparr>breaker := CircuitBreaker_RecordFailure now (breaker c)\<rparr>)"

definition CircuitBreakerMiddleware_RecordAuthSuccess ::
  "time \<Rightarrow> CircuitBreakerMiddleware \<Rightarrow> CircuitBreakerMiddleware" where
  "CircuitBreakerMiddleware_RecordAuthSuccess now c =
     (if \<not> cm_enabled c then c else c\<lparr>breaker := CircuitBreaker_RecordSuccess now (breaker c)\<rparr>)"

definition CircuitBreakerMiddleware_GetState ::
  "time \<Rightarrow> CircuitBreakerMiddleware \<Rightarrow> CircuitBreakerState" where
  "CircuitBreakerMiddleware_GetState now c =
     (if \<not> cm_enabled c then StateClosed else CircuitBreaker_GetState now (breaker c))"

section \<open>What a connection handler sees and does\<close>

text \<open>
  A handler runs on one accepted connection. Its environment is a record: the client IP
  that \<open>GetClientIP\<close> extracts from the peer address, the instant at which each manager
  reads the clock (breaker check, ban check, global and per-IP bucket, and the two
  recordings of the authentication outcome), and \<open>dial\<close>, which tells whether
  \<open>net.DialTimeout(network, address, 10s)\<close> succeeds.

  What the handler does is a list of events, in order: \<open>Write\<close> of bytes to the client,
  \<open>DialTimeout\<close> with its network and address arguments, \<open>Forward\<close> (the request is
  written to the target and the response copied back) and \<open>Relay\<close> (the two-way copy of
  \<open>transfer\<close>). The handler closes the connection when it returns. Writes to the client
  and to the target are taken to succeed; logging is left out.
\<close>

record conn =
  clientIP :: string
  at_breaker :: time
  at_ban :: time
  at_global :: time
  at_per_ip :: time
  at_ban_record :: time
  at_breaker_record :: time
  dial :: "string \<Rightarrow> string \<Rightarrow> bool"

datatype 'w event = Write 'w | DialTimeout string string | Forward | Relay

fun decimal :: "nat \<Rightarrow> string" where
  \<comment> \<open>\<open>%d\<close> of a number that is not negative\<close>
  "decimal n =
     (if n < 10 then [''0123456789'' ! n]
      else decimal (n div 10) @ [''0123456789'' ! (n mod 10)])"

declare decimal.simps [simp del]

definition JoinHostPort :: "string \<Rightarrow> string \<Rightarrow> string" where
  \<comment> \<open>\<open>net.JoinHostPort\<close>: a host that contains a colon is put in brackets\<close>
  "JoinHostPort host port' =
     (if CHR '':'' \<in> set host then ''['' @ host @ '']:'' @ port' else host @ '':'' @ port')"

section \<open>The HTTP frontend (internal/proxy/http.go)\<close>

record HTTPProxy =
  h_port :: int
  h_network :: string
  h_auth :: AuthMiddleware
  h_rateLimit :: RateLimitMiddleware
  h_ipBan :: IPBanMiddleware
  h_circuitBreaker :: CircuitBreakerMiddleware

definition NewHTTPProxy ::
  "int \<Rightarrow> string \<Rightarrow> AuthMiddleware \<Rightarrow> RateLimitMiddleware \<Rightarrow> IPBanMiddleware
     \<Rightarrow> CircuitBreakerMiddleware \<Rightarrow> HTTPProxy" where
  "NewHTTPProxy port' network auth rateLimit ipBan circuitBreaker =
     \<lparr>h_port = port', h_network = network, h_auth = auth, h_rateLimit = rateLimit,
      h_ipBan = ipBan, h_circuitBreaker = circuitBreaker\<rparr>"

text \<open>
  Of the request that \<open>http.ReadRequest\<close> parses, the handler uses the method, the host
  and the \<open>Proxy-Authorization\<close> header (\<open>Header.Get\<close> gives the empty string when the
  header is absent).
\<close>

record http_request =
  Method :: string
  Host :: string
  ProxyAuthorization :: string

definition CRLF :: string where
  "CRLF = [CHR 0x0D, CHR 0x0A]"

definition StatusText :: "nat \<Rightarrow> string" where
  \<comment> \<open>the entries of \<open>http.StatusText\<close> for the codes this file passes to \<open>sendError\<close>\<close>
  "StatusText code =
     (if code = 403 then ''Forbidden''
      else if code = 429 then ''Too Many Requests''
      else if code = 502 then ''Bad Gateway''
      else if code = 503 then ''Service Unavailable''
      else [])"

definition sendError :: "nat \<Rightarrow> string \<Rightarrow> string" where
  "sendError statusCode message =
     ''HTTP/1.1 '' @ decimal statusCode @ '' '' @ StatusText statusCode @ CRLF
     @ ''Content-Type: text/plain'' @ CRLF
     @ ''Content-Length: '' @ decimal (length message) @ CRLF
     @ CRLF
     @ message"

definition sendProxyAuthRequired :: string where
  "sendProxyAuthRequired =
     ''HTTP/1.1 407 Proxy Authentication Required'' @ CRLF
     @ ''Proxy-Authenticate: Basic realm='' @ [CHR 0x22] @ ''DuDu Proxy'' @ [CHR 0x22] @ CRLF
     @ ''Content-Length: 0'' @ CRLF
     @ CRLF"

definition SplitN_2 :: "string \<Rightarrow> string list" where
  \<comment> \<open>\<open>strings.SplitN(s, ":", 2)\<close>: split at the first colon, if there is one\<close>
  "SplitN_2 s =
     (if CHR '':'' \<in> set s
      then [takeWhile (\<lambda>c. c \<noteq> CHR '':'') s, tl (dropWhile (\<lambda>c. c \<noteq> CHR '':'') s)]
      else [s])"

text \<open>
  \<open>parseProxyAuth\<close>. The decoder \<open>base64.StdEncoding.DecodeString\<close> is a parameter
  \<open>b64\<close>: \<open>None\<close> is its error.
\<close>

definition parseProxyAuth :: "(string \<Rightarrow> string option) \<Rightarrow> http_request \<Rightarrow> string \<times> string \<times> bool" where
  "parseProxyAuth b64 req =
     (let auth = ProxyAuthorization req
      in if auth = [] then ([], [], False)
         else if take (length ''Basic '') auth \<noteq> ''Basic '' then ([], [], False)
         else case b64 (drop (length ''Basic '') auth) of
                None \<Rightarrow> ([], [], False)
              | Some decoded \<Rightarrow>
                  (case SplitN_2 decoded of
                     [username, password] \<Rightarrow> (username, password, True)
                   | _ \<Rightarrow> ([], [], False)))"

definition handleConnect :: "HTTPProxy \<Rightarrow> conn \<Rightarrow> http_request \<Rightarrow> string event list" where
  "handleConnect h c req =
     (if \<not> dial c (h_network h) (Host req) then
        [DialTimeout (h_network h) (Host req),
         Write (sendError 502 ''Failed to connect to target'')]
      else
        [DialTimeout (h_network h) (Host req),
         Write (''HTTP/1.1 200 Connection Established'' @ CRLF @ CRLF),
         Relay])"

definition handleHTTP :: "HTTPProxy \<Rightarrow> conn \<Rightarrow> http_request \<Rightarrow> string event list" where
  "handleHTTP h c req =
     (let targetAddr = (if CHR '':'' \<notin> set (Host req) then JoinHostPort (Host req) ''80''
                        else Host req)
      in if \<not> dial c (h_network h) targetAddr then
           [DialTimeout (h_network h) targetAddr,
            Write (sendError 502 ''Failed to connect to target'')]
         else [DialTimeout (h_network h) targetAddr, Forward])"

definition http_serve :: "HTTPProxy \<Rightarrow> conn \<Rightarrow> http_request \<Rightarrow> string event list" where
  \<comment> \<open>the end of \<open>handleConnection\<close>: the branch on the method\<close>
  "http_serve h c req =
     (if Method req = ''CONNECT'' then handleConnect h c req else handleHTTP h c req)"

text \<open>
  \<open>handleConnection\<close>: the optional request is what \<open>http.ReadRequest\<close> returns
  (\<open>None\<close> for its error). The result is the events and the proxy with its middlewares
  as the handler leaves them.
\<close>

definition HTTPProxy_handleConnection ::
  "(string \<Rightarrow> string option) \<Rightarrow> HTTPProxy \<Rightarrow> conn \<Rightarrow> http_request option
     \<Rightarrow> string event list \<times> HTTPProxy" where
  "HTTPProxy_handleConnection b64 h c request =
     (if CircuitBreakerMiddleware_IsOpen (at_breaker c) (h_circuitBreaker h) then
        ([Write (sendError 503 ''Service temporarily unavailable'')], h)
      else if IsBlocked (at_ban c) (clientIP c) (h_ipBan h) then
        ([Write (sendError 403 ''Access denied'')], h)
      else
        case RateLimitMiddleware_Allow (at_global c) (at_per_ip c) (clientIP c) (h_rateLimit h) of
          (allowed, rateLimit') \<Rightarrow>
            let h1 = h\<lparr>h_rateLimit := rateLimit'\<rparr>
            in if \<not> allowed then ([Write (sendError 429 ''Too many requests'')], h1)
               else case request of
                      None \<Rightarrow> ([], h1)
                    | Some req \<Rightarrow>
                        if AuthMiddleware_IsEnabled (h_auth h1) then
                          (case parseProxyAuth b64 req of (username, password, ok) \<Rightarrow>
                             if \<not> ok \<or> \<not> Authenticate username password (h_auth h1) then
                               ([Write sendProxyAuthRequired],
                                h1\<lparr>h_ipBan := IPBanMiddleware_RecordAuthFailure
                                                 (at_ban_record c) (clientIP c) (h_ipBan h1),
                                   h_circuitBreaker := CircuitBreakerMiddleware_RecordAuthFailure
                                                 (at_breaker_record c) (h_circuitBreaker h1)\<rparr>)
                             else
                               (let h2 = h1\<lparr>h_ipBan := IPBanMiddleware_RecordAuthSuccess
                                                           (clientIP c) (h_ipBan h1),
                                             h_circuitBreaker := CircuitBreakerMiddleware_RecordAuthSuccess
                                                           (at_breaker_record c) (h_circuitBreaker h1)\<rparr>
                                in (http_serve h2 c req, h2)))
                        else (http_serve h1 c req, h1))"

section \<open>The SOCKS5 frontend (internal/proxy/socks5.go)\<close>

type_synonym byte = "8 word"

definition socks5Version :: byte where "socks5Version = 0x05"
definition authNone :: byte where "authNone = 0x00"
definition authPassword :: byte where "authPassword = 0x02"
definition authNoAccept :: byte where "authNoAccept = 0xFF"
definition cmdConnect :: byte where "cmdConnect = 0x01"
definition atypIPv4 :: byte where "atypIPv4 = 0x01"
definition atypDomain :: byte where "atypDomain = 0x03"
definition atypIPv6 :: byte where "atypIPv6 = 0x04"
definition repSuccess :: byte where "repSuccess = 0x00"
definition repServerFailure :: byte where "repServerFailure = 0x01"
definition repHostUnreachable :: byte where "repHostUnreachable = 0x04"
definition repCommandNotSupported :: byte where "repCommandNotSupported = 0x07"
definition repAddressNotSupported :: byte where "repAddressNotSupported = 0x08"

text \<open>The struct has no \<open>network\<close> field, and \<open>NewSOCKS5Proxy\<close> no such parameter.\<close>

record SOCKS5Proxy =
  s_port :: int
  s_auth :: AuthMiddleware
  s_rateLimit :: RateLimitMiddleware
  s_ipBan :: IPBanMiddleware
  s_circuitBreaker :: CircuitBreakerMiddleware

definition NewSOCKS5Proxy ::
  "int \<Rightarrow> AuthMiddleware \<Rightarrow> RateLimitMiddleware \<Rightarrow> IPBanMiddleware
     \<Rightarrow> CircuitBreakerMiddleware \<Rightarrow> SOCKS5Proxy" where
  "NewSOCKS5Proxy port' auth rateLimit ipBan circuitBreaker =
     \<lparr>s_port = port', s_auth = auth, s_rateLimit = rateLimit,
      s_ipBan = ipBan, s_circuitBreaker = circuitBreaker\<rparr>"

datatype socks_error =
    ErrReadVersion | ErrUnsupportedVersion byte | ErrReadMethods | ErrNoAcceptableMethod
  | ErrReadAuthVersion | ErrUnsupportedAuthVersion byte | ErrReadUsername
  | ErrReadPasswordLength | ErrReadPassword | ErrAuthenticationFailed
  | ErrReadRequest | ErrInvalidVersion byte | ErrUnsupportedCommand byte
  | ErrReadIPv4 | ErrReadDomainLength | ErrReadDomain | ErrReadIPv6
  | ErrUnsupportedAddressType byte | ErrReadPort | ErrConnect

text \<open>
  A session is the state of one connection while the handler runs: the bytes the client
  sends that are not read yet, the events so far, and the proxy. \<open>io.ReadFull\<close> of \<open>n\<close>
  bytes fails when the client sends fewer before it closes.
\<close>

record session =
  unread :: "byte list"
  events :: "byte list event list"
  proxy :: SOCKS5Proxy

definition ReadFull :: "nat \<Rightarrow> byte list \<Rightarrow> (byte list \<times> byte list) option" where
  "ReadFull n inp = (if n \<le> length inp then Some (take n inp, drop n inp) else None)"

definition emit :: "byte list event \<Rightarrow> session \<Rightarrow> session" where
  "emit e ss = ss\<lparr>events := events ss @ [e]\<rparr>"

definition bytes_string :: "byte list \<Rightarrow> string" where
  \<comment> \<open>the conversion \<open>string(b)\<close> of a byte slice\<close>
  "bytes_string bs = map (\<lambda>b. char_of (unat b)) bs"

definition IPv4_String :: "byte list \<Rightarrow> string" where
  \<comment> \<open>\<open>net.IPv4(a, b, c, d).String()\<close>: the dotted quad\<close>
  "IPv4_String addr =
     decimal (unat (addr ! 0)) @ ''.'' @ decimal (unat (addr ! 1)) @ ''.''
     @ decimal (unat (addr ! 2)) @ ''.'' @ decimal (unat (addr ! 3))"

definition sendReply :: "byte \<Rightarrow> byte \<Rightarrow> session \<Rightarrow> session" where
  "sendReply rep atyp ss = emit (Write [socks5Version, rep, 0x00, 0x01, 0, 0, 0, 0, 0, 0]) ss"

definition authenticatePassword :: "conn \<Rightarrow> session \<Rightarrow> socks_error option \<times> session" where
  "authenticatePassword c ss =
     (case ReadFull 2 (unread ss) of
        None \<Rightarrow> (Some ErrReadAuthVersion, ss)
      | Some (buf, rest) \<Rightarrow>
          let authVersion = buf ! 0
          in if authVersion \<noteq> 0x01 then (Some (ErrUnsupportedAuthVersion authVersion), ss\<lparr>unread := rest\<rparr>)
             else
               let usernameLen = unat (buf ! 1)
               in case ReadFull usernameLen rest of
                    None \<Rightarrow> (Some ErrReadUsername, ss\<lparr>unread := rest\<rparr>)
                  | Some (username, rest1) \<Rightarrow>
                      (case ReadFull 1 rest1 of
                         None \<Rightarrow> (Some ErrReadPasswordLength, ss\<lparr>unread := rest1\<rparr>)
                       | Some (passwordLenBuf, rest2) \<Rightarrow>
                           let passwordLen = unat (passwordLenBuf ! 0)
                           in case ReadFull passwordLen rest2 of
                                None \<Rightarrow> (Some ErrReadPassword, ss\<lparr>unread := rest2\<rparr>)
                              | Some (password, rest3) \<Rightarrow>
                                  let p = proxy ss;
                                      authSuccess = Authenticate (bytes_string username)
                                                      (bytes_string password) (s_auth p)
                                  in if authSuccess then
                                       (None,
                                        emit (Write [0x01, 0x00])
                                          (ss\<lparr>unread := rest3,
                                              proxy := p\<lparr>s_ipBan := IPBanMiddleware_RecordAuthSuccess
                                                                       (clientIP c) (s_ipBan p),
                                                         s_circuitBreaker :=
                                                           CircuitBreakerMiddleware_RecordAuthSuccess
                                                             (at_breaker_record c) (s_circuitBreaker p)\<rparr>\<rparr>))
                                     else
                                       (Some ErrAuthenticationFailed,
                                        emit (Write [0x01, 0x01])
                                          (ss\<lparr>unread := rest3,
                                              proxy := p\<lparr>s_ipBan := IPBanMiddleware_RecordAuthFailure
                                                                       (at_ban_record c) (clientIP c) (s_ipBan p),
                                                         s_circuitBreaker :=
                                                           CircuitBreakerMiddleware_RecordAuthFailure
                                                             (at_breaker_record c) (s_circuitBreaker p)\<rparr>\<rparr>))))"

definition handshake :: "conn \<Rightarrow> session \<Rightarrow> socks_error option \<times> session" where
  "handshake c ss =
     (case ReadFull 2 (unread ss) of
        None \<Rightarrow> (Some ErrReadVersion, ss)
      | Some (buf, rest) \<Rightarrow>
          let version = buf ! 0; nMethods = buf ! 1
          in if version \<noteq> socks5Version then (Some (ErrUnsupportedVersion version), ss\<lparr>unread := rest\<rparr>)
             else case ReadFull (unat nMethods) rest of
                    None \<Rightarrow> (Some ErrReadMethods, ss\<lparr>unread := rest\<rparr>)
                  | Some (methods, rest1) \<Rightarrow>
                      let selectedMethod =
                            (if AuthMiddleware_IsEnabled (s_auth (proxy ss))
                             then (if authPassword \<in> set methods then authPassword else authNoAccept)
                             else (if authNone \<in> set methods then authNone else authNoAccept));
                          ss1 = emit (Write [socks5Version, selectedMethod]) (ss\<lparr>unread := rest1\<rparr>)
                      in if selectedMethod = authNoAccept then (Some ErrNoAcceptableMethod, ss1)
                         else if selectedMethod = authPassword then authenticatePassword c ss1
                         else (None, ss1))"

text \<open>
  \<open>handleRequest\<close>. The text form \<open>net.IP(addr).String()\<close> of the sixteen address bytes
  is a parameter \<open>ip_string\<close>. The target is built by
  \<open>fmt.Sprintf("%s:%d", targetAddr, targetPort)\<close> and dialled on the network \<open>"tcp"\<close>.
\<close>

definition connect_target ::
  "conn \<Rightarrow> byte \<Rightarrow> string \<Rightarrow> session \<Rightarrow> socks_error option \<times> session" where
  \<comment> \<open>\<open>handleRequest\<close> from \<open>// Read port\<close> on\<close>
  "connect_target c atyp targetAddr ss =
     (case ReadFull 2 (unread ss) of
        None \<Rightarrow> (Some ErrReadPort, sendReply repServerFailure atyp ss)
      | Some (portBuf, rest) \<Rightarrow>
          let targetPort = unat (portBuf ! 0) * 256 + unat (portBuf ! 1);
              target = targetAddr @ '':'' @ decimal targetPort;
              ss1 = emit (DialTimeout ''tcp'' target) (ss\<lparr>unread := rest\<rparr>)
          in if \<not> dial c ''tcp'' target
             then (Some ErrConnect, sendReply repHostUnreachable atyp ss1)
             else (None, emit Relay (sendReply repSuccess atyp ss1)))"

definition handleRequest ::
  "(byte list \<Rightarrow> string) \<Rightarrow> conn \<Rightarrow> session \<Rightarrow> socks_error option \<times> session" where
  "handleRequest ip_string c ss =
     (case ReadFull 4 (unread ss) of
        None \<Rightarrow> (Some ErrReadRequest, ss)
      | Some (buf, rest) \<Rightarrow>
          let version = buf ! 0; cmd = buf ! 1; atyp = buf ! 3; ss0 = ss\<lparr>unread := rest\<rparr>
          in if version \<noteq> socks5Version
               then (Some (ErrInvalidVersion version), sendReply repServerFailure atyp ss0)
             else if cmd \<noteq> cmdConnect
               then (Some (ErrUnsupportedCommand cmd), sendReply repCommandNotSupported atyp ss0)
             else if atyp = atypIPv4 then
               (case ReadFull 4 rest of
                  None \<Rightarrow> (Some ErrReadIPv4, sendReply repServerFailure atyp ss0)
                | Some (addr, rest1) \<Rightarrow>
                    connect_target c atyp (IPv4_String addr) (ss0\<lparr>unread := rest1\<rparr>))
             else if atyp = atypDomain then
               (case ReadFull 1 rest of
                  None \<Rightarrow> (Some ErrReadDomainLength, sendReply repServerFailure atyp ss0)
                | Some (lenBuf, rest1) \<Rightarrow>
                    (case ReadFull (unat (lenBuf ! 0)) rest1 of
                       None \<Rightarrow> (Some ErrReadDomain, sendReply repServerFailure atyp (ss0\<lparr>unread := rest1\<rparr>))
                     | Some (domain, rest2) \<Rightarrow>
                         connect_target c atyp (bytes_string domain) (ss0\<lparr>unread := rest2\<rparr>)))
             else if atyp = atypIPv6 then
               (case ReadFull 16 rest of
                  None \<Rightarrow> (Some ErrReadIPv6, sendReply repServerFailure atyp ss0)
                | Some (addr, rest1) \<Rightarrow>
                    connect_target c atyp (ip_string addr) (ss0\<lparr>unread := rest1\<rparr>))
             else (Some (ErrUnsupportedAddressType atyp), sendReply repAddressNotSupported atyp ss0))"

text \<open>
  \<open>handleConnection\<close>, on the bytes \<open>inp\<close> that the client sends: the events and the
  proxy as the handler leaves them.
\<close>

definition SOCKS5Proxy_handleConnection ::
  "(byte list \<Rightarrow> string) \<Rightarrow> SOCKS5Proxy \<Rightarrow> conn \<Rightarrow> byte list
     \<Rightarrow> byte list event list \<times> SOCKS5Proxy" where
  "SOCKS5Proxy_handleConnection ip_string s c inp =
     (if CircuitBreakerMiddleware_IsOpen (at_breaker c) (s_circuitBreaker s) then ([], s)
      else if IsBlocked (at_ban c) (clientIP c) (s_ipBan s) then ([], s)
      else
        case RateLimitMiddleware_Allow (at_global c) (at_per_ip c) (clientIP c) (s_rateLimit s) of
          (allowed, rateLimit') \<Rightarrow>
            let s1 = s\<lparr>s_rateLimit := rateLimit'\<rparr>
            in if \<not> allowed then ([], s1)
               else case handshake c \<lparr>unread = inp, events = [], proxy = s1\<rparr> of
                      (Some err, ss) \<Rightarrow> (events ss, proxy ss)
                    | (None, ss) \<Rightarrow>
                        (case handleRequest ip_string c ss of
                           (err, ss') \<Rightarrow> (events ss', proxy ss')))"

section \<open>Runs and fixtures\<close>

definition admitted_http :: "HTTPProxy \<Rightarrow> conn \<Rightarrow> bool" where
  \<comment> \<open>the three admission checks of the HTTP handler all pass\<close>
  "admitted_http h c =
     (\<not> CircuitBreakerMiddleware_IsOpen (at_breaker c) (h_circuitBreaker h)
      \<and> \<not> IsBlocked (at_ban c) (clientIP c) (h_ipBan h)
      \<and> fst (RateLimitMiddleware_Allow (at_global c) (at_per_ip c) (clientIP c) (h_rateLimit h)))"

definition bad_credentials :: "(string \<Rightarrow> string option) \<Rightarrow> http_request \<Rightarrow> bool" where
  \<comment> \<open>no \<open>Proxy-Authorization\<close> header, a scheme other than \<open>Basic\<close>, a payload that is
      not base64, or a decoded payload without a colon\<close>
  "bad_credentials b64 req =
     (ProxyAuthorization req = []
      \<or> take (length ''Basic '') (ProxyAuthorization req) \<noteq> ''Basic ''
      \<or> (case b64 (drop (length ''Basic '') (ProxyAuthorization req)) of
            None \<Rightarrow> True
          | Some decoded \<Rightarrow> CHR '':'' \<notin> set decoded))"

definition wrong_credentials :: "(string \<Rightarrow> string option) \<Rightarrow> AuthMiddleware \<Rightarrow> http_request \<Rightarrow> bool" where
  \<comment> \<open>a well-formed header whose user and password the credential table rejects\<close>
  "wrong_credentials b64 a req =
     (case parseProxyAuth b64 req of (username, password, ok) \<Rightarrow>
        ok \<and> \<not> Authenticate username password a)"

definition auth_failure_outcome :: "HTTPProxy \<Rightarrow> conn \<Rightarrow> string event list \<times> HTTPProxy" where
  \<comment> \<open>the 407 response, one failure recorded by the ban middleware and one by the breaker
      middleware (and the token taken on admission)\<close>
  "auth_failure_outcome h c =
     ([Write sendProxyAuthRequired],
      h\<lparr>h_rateLimit := snd (RateLimitMiddleware_Allow (at_global c) (at_per_ip c) (clientIP c)
                              (h_rateLimit h)),
        h_ipBan := IPBanMiddleware_RecordAuthFailure (at_ban_record c) (clientIP c) (h_ipBan h),
        h_circuitBreaker := CircuitBreakerMiddleware_RecordAuthFailure (at_breaker_record c)
                              (h_circuitBreaker h)\<rparr>)"

fun http_connections ::
  "(string \<Rightarrow> string option) \<Rightarrow> (conn \<times> http_request option) list \<Rightarrow> HTTPProxy \<Rightarrow> HTTPProxy" where
  \<comment> \<open>the proxy after handling the connections one after the other\<close>
  "http_connections b64 [] h = h"
| "http_connections b64 ((c, request) # rest) h =
     http_connections b64 rest (snd (HTTPProxy_handleConnection b64 h c request))"

fun all_admitted ::
  "(string \<Rightarrow> string option) \<Rightarrow> (conn \<times> http_request option) list \<Rightarrow> HTTPProxy \<Rightarrow> bool" where
  \<comment> \<open>each connection of the run passes the admission checks when it arrives\<close>
  "all_admitted b64 [] h = True"
| "all_admitted b64 ((c, request) # rest) h =
     (admitted_http h c
      \<and> all_admitted b64 rest (snd (HTTPProxy_handleConnection b64 h c request)))"

definition breaker_quiet :: "int \<Rightarrow> CircuitBreakerMiddleware \<Rightarrow> bool" where
  \<comment> \<open>the breaker middleware is disabled, or its breaker is closed and its window has
      room for \<open>n\<close> more records below \<open>minRequests\<close>\<close>
  "breaker_quiet n cm =
     (\<not> cm_enabled cm
      \<or> (state (breaker cm) = StateClosed
          \<and> int (length (requests (breaker cm))) + n < minRequests (breaker cm)))"

text \<open>
  Fixtures: a connection whose clock reads \<open>t\<close> throughout, middlewares with every
  filter switched off, and the two frontends built on them.
\<close>

definition conn_at :: "time \<Rightarrow> string \<Rightarrow> (string \<Rightarrow> string \<Rightarrow> bool) \<Rightarrow> conn" where
  "conn_at t ip d =
     \<lparr>clientIP = ip, at_breaker = t, at_ban = t, at_global = t, at_per_ip = t,
      at_ban_record = t, at_breaker_record = t, dial = d\<rparr>"

definition auth_off :: AuthMiddleware where
  "auth_off = \<lparr>am_enabled = False, credentials = []\<rparr>"

definition ban_off :: IPBanMiddleware where
  "ban_off = \<lparr>im_enabled = False, manager = NewIPBanManager 0 None 5 300 []\<rparr>"

definition breaker_off :: CircuitBreakerMiddleware where
  "breaker_off = \<lparr>cm_enabled = False, breaker = NewCircuitBreaker 0 50 60 20 30\<rparr>"

definition open_http :: "string \<Rightarrow> HTTPProxy" where
  "open_http network =
     NewHTTPProxy 8080 network auth_off (NewRateLimitMiddleware False 0 0) ban_off breaker_off"

definition open_socks5 :: SOCKS5Proxy where
  "open_socks5 = NewSOCKS5Proxy 1080 auth_off (NewRateLimitMiddleware False 0 0) ban_off breaker_off"

definition ipv6_example :: "byte list" where
  \<comment> \<open>the sixteen bytes of \<open>2001:db8::1\<close>\<close>
  "ipv6_example = [0x20, 0x01, 0x0d, 0xb8, 0, 0, 0, 0, 0, 0, 0, 0, 0, 0, 0, 0x01]"

definition breaker_on :: CircuitBreakerMiddleware where
  \<comment> \<open>an enabled breaker, closed and with an empty window: threshold 50 percent,
      window 60, minimum 20 requests, break 30\<close>
  "breaker_on = \<lparr>cm_enabled = True, breaker = NewCircuitBreaker 0 50 60 20 30\<rparr>"

definition guarded_http :: HTTPProxy where
  \<comment> \<open>scenario 3 of the spec: authentication for \<open>user1:pass1\<close>, a ban after 3 failures
      for 300, the breaker enabled, the rate limiter off\<close>
  "guarded_http =
     NewHTTPProxy 8080 ''tcp'' \<lparr>am_enabled = True, credentials = [(''user1'', ''pass1'')]\<rparr>
       (NewRateLimitMiddleware False 0 0)
       \<lparr>im_enabled = True, manager = NewIPBanManager 0 None 3 300 []\<rparr>
       breaker_on"

definition no_header :: http_request where
  "no_header = \<lparr>Method = ''CONNECT'', Host = ''example.com:443'', ProxyAuthorization = []\<rparr>"

text \<open>
  Fixtures for the admission checks: the breaker of the repository's tests in its open
  state, a tracker that has just banned \<open>10.0.0.1\<close> (until 303), and a rate limiter
  whose global bucket (one token per second, burst 2) has been emptied at instant 0.
\<close>

definition breaker_open :: CircuitBreakerMiddleware where
  "breaker_open = \<lparr>cm_enabled = True, breaker = opened_breaker\<rparr>"

definition ban_live :: IPBanMiddleware where
  "ban_live =
     \<lparr>im_enabled = True,
      manager = record_failures ''10.0.0.1'' [1, 2, 3] (NewIPBanManager 0 None 3 300 [])\<rparr>"

definition limiter_empty :: RateLimitMiddleware where
  "limiter_empty =
     allow_calls [(0, 0, ''10.0.0.1''), (0, 0, ''10.0.0.1'')] (NewRateLimitMiddleware True 1 5)"

definition client :: conn where
  "client = conn_at 9 ''10.0.0.1'' (\<lambda>network address. True)"

definition dials_on :: "string \<Rightarrow> 'w event \<Rightarrow> bool" where
  \<comment> \<open>an event that, if it is a dial, is a dial on the given network\<close>
  "dials_on network e = (case e of DialTimeout n a \<Rightarrow> n = network | _ \<Rightarrow> True)"

section \<open>Properties of the ban tracker\<close>

lemma IPBanManager_RecordFailure_whitelisted:
  "go_get_bool (whitelist m) ip \<Longrightarrow> IPBanManager_RecordFailure t ip m = m"
  by (simp add: IPBanManager_RecordFailure_def)

lemma record_failures_whitelisted:
  "go_get_bool (whitelist m) ip \<Longrightarrow> record_failures ip ts m = m"
  unfolding record_failures_def
  by (induction ts) (simp_all add: IPBanManager_RecordFailure_whitelisted)

lemma map_of_update_same: "map_of (AList.update k v al) k = Some v"
  by (simp add: update_conv')

lemma go_get_int_update_same: "go_get_int (AList.update k v al) k = v"
  by (simp add: go_get_int_def update_conv')

lemma record_failures_snoc:
  "record_failures ip (ts @ [t]) m = IPBanManager_RecordFailure t ip (record_failures ip ts m)"
  by (simp add: record_failures_def)

lemma below_threshold:
  assumes "\<not> go_get_bool (whitelist m) ip"
      and "go_get_int (failureCounts m) ip = 0"
      and "map_of (bannedIPs m) ip = None"
      and "int (length ts) < maxFailures m"
  shows "map_of (bannedIPs (record_failures ip ts m)) ip = None
       \<and> go_get_int (failureCounts (record_failures ip ts m)) ip = int (length ts)
       \<and> maxFailures (record_failures ip ts m) = maxFailures m
       \<and> banDuration (record_failures ip ts m) = banDuration m
       \<and> whitelist (record_failures ip ts m) = whitelist m"
  using assms
proof (induction ts rule: rev_induct)
  case Nil
  then show ?case by (simp add: record_failures_def)
next
  case (snoc t ts)
  then have IH: "map_of (bannedIPs (record_failures ip ts m)) ip = None"
      "go_get_int (failureCounts (record_failures ip ts m)) ip = int (length ts)"
      "maxFailures (record_failures ip ts m) = maxFailures m"
      "banDuration (record_failures ip ts m) = banDuration m"
      "whitelist (record_failures ip ts m) = whitelist m"
    by simp_all
  from snoc.prems have lt: "int (length ts) + 1 < maxFailures m" by simp
  show ?case
    using IH lt snoc.prems(1)
    by (simp add: record_failures_snoc IPBanManager_RecordFailure_def Let_def go_get_int_update_same)
qed

lemma at_threshold:
  assumes "\<not> go_get_bool (whitelist m) ip"
      and "go_get_int (failureCounts m) ip = 0"
      and "map_of (bannedIPs m) ip = None"
      and "int (length ts) + 1 = maxFailures m"
  shows "map_of (bannedIPs (record_failures ip (ts @ [t]) m)) ip = Some (t + banDuration m)
       \<and> map_of (failureCounts (record_failures ip (ts @ [t]) m)) ip = None
       \<and> map_of (bannedFailCount (record_failures ip (ts @ [t]) m)) ip = Some (maxFailures m)
       \<and> whitelist (record_failures ip (ts @ [t]) m) = whitelist m"
proof -
  have lt: "int (length ts) < maxFailures m" using assms(4) by simp
  note B = below_threshold [OF assms(1-3) lt]
  show ?thesis
    using B assms(1,4)
    by (simp add: record_failures_snoc IPBanManager_RecordFailure_def Let_def go_get_int_update_same
        update_conv' delete_conv')
qed

lemma add_failure_records_eq:
  "distinct (map fst fc) \<Longrightarrow>
   add_failure_records fc R =
     R @ map failure_record_of (filter (\<lambda>(ip, c). ip \<notin> IP ` set R \<and> 0 < c) fc)"
proof (induction fc arbitrary: R)
  case Nil
  then show ?case by simp
next
  case (Cons a fc)
  obtain ip c where a: "a = (ip, c)" by (cases a)
  from Cons.prems a have d: "distinct (map fst fc)" and nin: "ip \<notin> fst ` set fc" by auto
  let ?R' = "if \<not> list_ex (\<lambda>r. IP r = ip) R \<and> 0 < c
             then R @ [\<lparr>IP = ip, BannedAt = 0, ExpiresAt = 0, FailCount = c\<rparr>] else R"
  have same: "filter (\<lambda>(ip', c'). ip' \<notin> IP ` set ?R' \<and> 0 < c') fc
            = filter (\<lambda>(ip', c'). ip' \<notin> IP ` set R \<and> 0 < c') fc"
    using nin by (intro filter_cong) (auto simp: image_iff)
  have "add_failure_records (a # fc) R = add_failure_records fc ?R'"
    using a by (simp add: Let_def)
  also have "\<dots> = ?R' @ map failure_record_of (filter (\<lambda>(ip', c'). ip' \<notin> IP ` set ?R' \<and> 0 < c') fc)"
    by (rule Cons.IH [OF d])
  also have "\<dots> = ?R' @ map failure_record_of (filter (\<lambda>(ip', c'). ip' \<notin> IP ` set R \<and> 0 < c') fc)"
    using same by simp
  also have "\<dots> = R @ map failure_record_of (filter (\<lambda>(ip', c'). ip' \<notin> IP ` set R \<and> 0 < c') (a # fc))"
    using a by (auto simp: list_ex_iff failure_record_of_def image_iff)
  finally show ?case .
qed

lemma restore_other:
  "ip \<notin> IP ` set rs \<Longrightarrow>
     map_of (bannedIPs (restore_records now rs m)) ip = map_of (bannedIPs m) ip
   \<and> map_of (failureCounts (restore_records now rs m)) ip = map_of (failureCounts m) ip"
  by (induction rs arbitrary: m) (auto simp: Let_def update_conv')

lemma restore_member:
  "distinct (map IP rs) \<Longrightarrow> r \<in> set rs \<Longrightarrow>
     map_of (bannedIPs (restore_records now rs m)) (IP r)
       = (if live_record now r then Some (ExpiresAt r) else map_of (bannedIPs m) (IP r))
   \<and> map_of (failureCounts (restore_records now rs m)) (IP r)
       = (if \<not> live_record now r \<and> 0 < FailCount r then Some (FailCount r)
          else map_of (failureCounts m) (IP r))"
proof (induction rs arbitrary: m)
  case Nil
  then show ?case by simp
next
  case (Cons a rs)
  show ?case
  proof (cases "r = a")
    case True
    with Cons.prems have "IP r \<notin> IP ` set rs" by auto
    from restore_other [OF this] True show ?thesis
      by (simp add: Let_def update_conv' live_record_def)
  next
    case False
    with Cons.prems have r: "r \<in> set rs" and d: "distinct (map IP rs)" and ne: "IP a \<noteq> IP r"
      by auto
    show ?thesis using Cons.IH [OF d r] ne
      by (simp add: Let_def update_conv')
  qed
qed

lemma restore_fields:
  "maxFailures (restore_records now rs m) = maxFailures m
 \<and> banDuration (restore_records now rs m) = banDuration m
 \<and> whitelist (restore_records now rs m) = whitelist m"
  by (induction rs arbitrary: m) (auto simp: Let_def)

lemma restore_distinct:
  "distinct (map fst (bannedIPs m)) \<Longrightarrow> distinct (map fst (bannedIPs (restore_records now rs m)))"
  by (induction rs arbitrary: m) (auto simp: Let_def distinct_update)

lemma configured_whitelist_iff:
  "go_get_bool (fold (\<lambda>ip wl. AList.update ip True wl) xs acc) ip
     = (ip \<in> set xs \<or> go_get_bool acc ip)"
  by (induction xs arbitrary: acc) (auto simp: go_get_bool_def update_conv')

lemma saveToFile_eq:
  assumes "distinct (map fst (failureCounts m))"
  shows "saveToFile t_save m =
           map (ban_record_of m) (live_bans t_save m)
           @ map failure_record_of
               (filter (\<lambda>(ip, c). ip \<notin> fst ` set (live_bans t_save m) \<and> 0 < c) (failureCounts m))"
proof -
  have "IP ` set (map (ban_record_of m) (live_bans t_save m)) = fst ` set (live_bans t_save m)"
    by (force simp: ban_record_of_def image_iff split: prod.splits)
  then show ?thesis
    unfolding saveToFile_def live_bans_def [symmetric]
    by (simp add: add_failure_records_eq [OF assms])
qed

lemma IP_ban_record_of: "map IP (map (ban_record_of m) xs) = map fst xs"
  by (induction xs) (auto simp: ban_record_of_def)

lemma IP_failure_record_of: "map IP (map failure_record_of xs) = map fst xs"
  by (induction xs) (auto simp: failure_record_of_def)

lemma saveToFile_distinct:
  assumes "distinct (map fst (bannedIPs m))" and "distinct (map fst (failureCounts m))"
  shows "distinct (map IP (saveToFile t_save m))"
proof -
  have 1: "distinct (map fst (live_bans t_save m))"
    unfolding live_bans_def using assms(1) by (rule distinct_map_filter)
  have 2: "distinct (map fst (filter (\<lambda>(ip, c). ip \<notin> fst ` set (live_bans t_save m) \<and> 0 < c) (failureCounts m)))"
    using assms(2) by (rule distinct_map_filter)
  show ?thesis
    unfolding saveToFile_eq [OF assms(2)]
    using 1 2 by (force simp: IP_ban_record_of IP_failure_record_of simp del: map_map)
qed

lemma reload_eq:
  "reload t_save t_load wl m = restore_records t_load (saveToFile t_save m)
       \<lparr>bannedIPs = [], bannedFailCount = [], failureCounts = [],
        maxFailures = maxFailures m, banDuration = banDuration m,
        whitelist = fold (\<lambda>ip wl. AList.update ip True wl) wl []\<rparr>"
  by (simp add: reload_def NewIPBanManager_def loadFromFile_def)

lemma reload_lookup:
  assumes db: "distinct (map fst (bannedIPs m))"
      and df: "distinct (map fst (failureCounts m))"
      and pos: "0 < t_save" and le: "t_save \<le> t_load"
  shows "map_of (bannedIPs (reload t_save t_load wl m)) ip
           = (case map_of (bannedIPs m) ip of
                Some e \<Rightarrow> if t_load < e then Some e else None
              | None \<Rightarrow> None)"
    and "map_of (failureCounts (reload t_save t_load wl m)) ip
           = (case map_of (bannedIPs m) ip of
                Some e \<Rightarrow>
                  if t_load < e then None
                  else if t_save < e then positive_count (bannedFailCount m) ip
                  else positive_count (failureCounts m) ip
              | None \<Rightarrow> positive_count (failureCounts m) ip)"
proof -
  let ?S = "saveToFile t_save m"
  let ?m0 = "\<lparr>bannedIPs = [], bannedFailCount = [], failureCounts = [],
        maxFailures = maxFailures m, banDuration = banDuration m,
        whitelist = fold (\<lambda>ip wl. AList.update ip True wl) wl []\<rparr>"
  have dS: "distinct (map IP ?S)" by (rule saveToFile_distinct [OF db df])
  have S: "set ?S = ban_record_of m ` set (live_bans t_save m)
             \<union> failure_record_of ` {(ip, c). (ip, c) \<in> set (failureCounts m)
                    \<and> ip \<notin> fst ` set (live_bans t_save m) \<and> 0 < c}"
    unfolding saveToFile_eq [OF df] by auto
  have lb: "\<And>ip e. (ip, e) \<in> set (live_bans t_save m) \<longleftrightarrow> map_of (bannedIPs m) ip = Some e \<and> t_save < e"
    using db by (auto simp: live_bans_def)
  have lbk: "\<And>ip. ip \<in> fst ` set (live_bans t_save m) \<longleftrightarrow> (\<exists>e. map_of (bannedIPs m) ip = Some e \<and> t_save < e)"
    using lb by (force simp: image_iff)
  have goal: "map_of (bannedIPs (reload t_save t_load wl m)) ip
           = (case map_of (bannedIPs m) ip of
                Some e \<Rightarrow> if t_load < e then Some e else None
              | None \<Rightarrow> None)
     \<and> map_of (failureCounts (reload t_save t_load wl m)) ip
           = (case map_of (bannedIPs m) ip of
                Some e \<Rightarrow>
                  if t_load < e then None
                  else if t_save < e then positive_count (bannedFailCount m) ip
                  else positive_count (failureCounts m) ip
              | None \<Rightarrow> positive_count (failureCounts m) ip)"
  proof (cases "\<exists>e. map_of (bannedIPs m) ip = Some e \<and> t_save < e")
    case True
    then obtain e where e: "map_of (bannedIPs m) ip = Some e" "t_save < e" by blast
    let ?r = "ban_record_of m (ip, e)"
    have mem: "?r \<in> set ?S" using e lb S by blast
    have ipr: "IP ?r = ip" by (simp add: ban_record_of_def)
    have live: "live_record t_load ?r \<longleftrightarrow> t_load < e"
      using e pos by (auto simp: live_record_def ban_record_of_def)
    have fc: "(if 0 < FailCount ?r then Some (FailCount ?r) else None)
                = positive_count (bannedFailCount m) ip"
      by (simp add: ban_record_of_def positive_count_def split: option.splits)
    have ex: "ExpiresAt ?r = e" by (simp add: ban_record_of_def)
    from restore_member [OF dS mem, of t_load ?m0] ipr live fc e ex
    show ?thesis by (auto simp: reload_eq split: if_splits)
  next
    case False
    have nolive: "ip \<notin> fst ` set (live_bans t_save m)" using False lbk by blast
    have old: "(case map_of (bannedIPs m) ip of
                Some e \<Rightarrow> if t_load < e then Some e else None
              | None \<Rightarrow> None) = None"
       "(case map_of (bannedIPs m) ip of
                Some e \<Rightarrow>
                  if t_load < e then None
                  else if t_save < e then positive_count (bannedFailCount m) ip
                  else positive_count (failureCounts m) ip
              | None \<Rightarrow> positive_count (failureCounts m) ip) = positive_count (failureCounts m) ip"
      using False le by (auto split: option.splits)
    show ?thesis
    proof (cases "positive_count (failureCounts m) ip")
      case None
      have "ip \<notin> IP ` set ?S"
      proof
        assume "ip \<in> IP ` set ?S"
        then obtain r where r: "r \<in> set ?S" "IP r = ip" by auto
        from r(1) S consider
            (ban) x where "x \<in> set (live_bans t_save m)" "r = ban_record_of m x"
          | (cnt) ip' c where "(ip', c) \<in> set (failureCounts m)" "0 < c" "r = failure_record_of (ip', c)"
          by auto
        then show False
        proof cases
          case ban
          have "IP (ban_record_of m x) = fst x" by (cases x) (simp add: ban_record_of_def)
          then have "ip = fst x" using ban(2) r(2) by simp
          then show False using ban(1) nolive by (simp add: image_iff) blast
        next
          case cnt
          then have "ip' = ip" using r(2) by (simp add: failure_record_of_def)
          then have "map_of (failureCounts m) ip = Some c" using cnt(1) df by simp
          then show False using None cnt(2) by (simp add: positive_count_def)
        qed
      qed
      from restore_other [OF this, of t_load ?m0] old None show ?thesis
        by (simp add: reload_eq)
    next
      case (Some c)
      then have c: "map_of (failureCounts m) ip = Some c" "0 < c"
        by (auto simp: positive_count_def split: option.splits if_splits)
      let ?r = "failure_record_of (ip, c)"
      have "(ip, c) \<in> set (failureCounts m)" using c(1) by (rule map_of_SomeD)
      then have mem: "?r \<in> set ?S" using S nolive c(2) by blast
      have ipr: "IP ?r = ip" "\<not> live_record t_load ?r" "FailCount ?r = c"
        by (simp_all add: failure_record_of_def live_record_def)
      from restore_member [OF dS mem, of t_load ?m0] ipr c(2) old Some
      show ?thesis by (simp add: reload_eq)
    qed
  qed
  from goal show "map_of (bannedIPs (reload t_save t_load wl m)) ip
           = (case map_of (bannedIPs m) ip of
                Some e \<Rightarrow> if t_load < e then Some e else None
              | None \<Rightarrow> None)" by blast
  from goal show "map_of (failureCounts (reload t_save t_load wl m)) ip
           = (case map_of (bannedIPs m) ip of
                Some e \<Rightarrow>
                  if t_load < e then None
                  else if t_save < e then positive_count (bannedFailCount m) ip
                  else positive_count (failureCounts m) ip
              | None \<Rightarrow> positive_count (failureCounts m) ip)" by blast
qed

lemma GetBannedIPs_set:
  "distinct (map fst (bannedIPs m)) \<Longrightarrow>
   set (GetBannedIPs now m) = {ip. \<exists>e. map_of (bannedIPs m) ip = Some e \<and> now < e}"
  by (force simp: GetBannedIPs_def image_iff)

lemma reload_distinct: "distinct (map fst (bannedIPs (reload t_save t_load wl m)))"
  unfolding reload_eq by (rule restore_distinct) simp


lemma counted_and_banned_mono:
  "\<not> counted_and_banned t m ip \<Longrightarrow> t \<le> t' \<Longrightarrow> \<not> counted_and_banned t' m ip"
  by (auto simp: counted_and_banned_def split: option.splits)

lemma step_exclusive:
  assumes "\<forall>ip. \<not> counted_and_banned t m ip"
      and "case op of Failure ip \<Rightarrow> \<not> IsBanned t ip m | _ \<Rightarrow> True"
  shows "\<not> counted_and_banned t (apply_ban_op t op m) ip"
proof (cases op)
  case (Failure a)
  show ?thesis
  proof (cases "go_get_bool (whitelist m) a")
    case True
    then show ?thesis using assms(1) Failure by (simp add: IPBanManager_RecordFailure_def)
  next
    case False
    with assms(2) Failure have nb: "case map_of (bannedIPs m) a of None \<Rightarrow> True | Some e \<Rightarrow> e < t"
      by (simp add: IsBanned_def split: option.splits if_splits)
    show ?thesis
    proof (cases "ip = a")
      case True
      then show ?thesis using nb False Failure
        by (auto simp: counted_and_banned_def IPBanManager_RecordFailure_def Let_def update_conv' delete_conv'
            split: option.splits)
    next
      case ne: False
      have "\<not> counted_and_banned t m ip" using assms(1) by blast
      then show ?thesis using ne False Failure
        by (auto simp: counted_and_banned_def IPBanManager_RecordFailure_def Let_def update_conv' delete_conv'
            split: option.splits)
    qed
  qed
next
  case (Success a)
  have "\<not> counted_and_banned t m ip" using assms(1) by blast
  then show ?thesis using Success
    by (auto simp: counted_and_banned_def IPBanManager_RecordSuccess_def delete_conv' split: option.splits)
next
  case (Unban a)
  have "\<not> counted_and_banned t m ip" using assms(1) by blast
  then show ?thesis using Unban
    by (auto simp: counted_and_banned_def UnbanIP_def delete_conv' split: option.splits)
qed

lemma run_exclusive:
  assumes "sorted (map fst ops)"
      and "failures_admitted ops m"
      and "\<forall>ip. \<not> counted_and_banned t0 m ip"
      and "\<forall>t \<in> set (map fst ops). t0 \<le> t \<and> t \<le> now"
      and "t0 \<le> now"
  shows "\<not> counted_and_banned now (run_ban_ops ops m) ip"
  using assms
proof (induction ops arbitrary: m t0)
  case Nil
  then show ?case
    using counted_and_banned_mono [of t0 m ip now] by (simp add: run_ban_ops_def)
next
  case (Cons a ops)
  obtain t op where a: "a = (t, op)" by (cases a)
  from Cons.prems(4) a have t: "t0 \<le> t" "t \<le> now" by simp_all
  have inv_t: "\<forall>ip. \<not> counted_and_banned t m ip"
    using Cons.prems(3) t(1) counted_and_banned_mono by blast
  have g: "case op of Failure ip \<Rightarrow> \<not> IsBanned t ip m | _ \<Rightarrow> True"
    using Cons.prems(2) a by simp
  have inv': "\<forall>ip. \<not> counted_and_banned t (apply_ban_op t op m) ip"
    using step_exclusive [OF inv_t g] by blast
  have s: "sorted (map fst ops)" using Cons.prems(1) by simp
  have adm: "failures_admitted ops (apply_ban_op t op m)" using Cons.prems(2) a by simp
  have bnd: "\<forall>u \<in> set (map fst ops). t \<le> u \<and> u \<le> now"
    using Cons.prems(1,4) a by auto
  have "\<not> counted_and_banned now (run_ban_ops ops (apply_ban_op t op m)) ip"
    by (rule Cons.IH [OF s adm inv' bnd t(2)])
  then show ?case using a by (simp add: run_ban_ops_def)
qed

lemma threshold_banned:
  assumes "\<not> go_get_bool (whitelist m) ip"
      and "map_of (failureCounts m) ip = None"
      and "map_of (bannedIPs m) ip = None"
      and "0 < maxFailures m"
      and "int (length ts) = maxFailures m"
      and "t \<le> last ts + banDuration m"
  shows "IsBanned t ip (record_failures ip ts m)"
proof -
  from assms(4,5) have ne: "ts \<noteq> []" by auto
  then have split: "ts = butlast ts @ [last ts]" by simp
  have z: "go_get_int (failureCounts m) ip = 0"
    using assms(2) by (simp add: go_get_int_def)
  have len: "int (length (butlast ts)) + 1 = maxFailures m"
    using assms(5) ne by (simp add: of_nat_diff Suc_leI)
  have A: "map_of (bannedIPs (record_failures ip (butlast ts @ [last ts]) m)) ip
             = Some (last ts + banDuration m)"
     and W: "whitelist (record_failures ip (butlast ts @ [last ts]) m) = whitelist m"
    using at_threshold [OF assms(1) z assms(3) len, of "last ts"] by simp_all
  have "IsBanned t ip (record_failures ip (butlast ts @ [last ts]) m)"
    using A W assms(1,6) by (simp add: IsBanned_def)
  then show ?thesis using split by simp
qed

subsection \<open>Claims about the ban tracker\<close>

text \<open>
  Claim C3 (ban threshold). Take an IP that is not whitelisted and has neither a failure
  counter nor a ban entry, and a positive \<open>maxFailures\<close>. After exactly \<open>maxFailures\<close>
  calls of \<open>IPBanManager_RecordFailure\<close> for it (at the instants \<open>ts\<close>), \<open>IsBanned\<close> is true at every
  instant up to the expiry \<open>last ts + banDuration\<close>; after only \<open>maxFailures - 1\<close> such
  calls (at the instants \<open>ts'\<close>) \<open>IsBanned\<close> is false at every instant.
\<close>

theorem C3_ban_threshold:
  assumes "\<not> go_get_bool (whitelist m) ip"
      and "map_of (failureCounts m) ip = None"
      and "map_of (bannedIPs m) ip = None"
      and "0 < maxFailures m"
      and "int (length ts) = maxFailures m"
      and "t \<le> last ts + banDuration m"
      and "int (length ts') = maxFailures m - 1"
  shows "IsBanned t ip (record_failures ip ts m)
       \<and> \<not> IsBanned t' ip (record_failures ip ts' m)"
proof -
  have z: "go_get_int (failureCounts m) ip = 0"
    using assms(2) by (simp add: go_get_int_def)
  have lt': "int (length ts') < maxFailures m" using assms(7) by simp
  have "map_of (bannedIPs (record_failures ip ts' m)) ip = None"
    using below_threshold [OF assms(1) z assms(3) lt'] by simp
  then have "\<not> IsBanned t' ip (record_failures ip ts' m)"
    by (simp add: IsBanned_def)
  then show ?thesis
    using threshold_banned [OF assms(1-6)] by simp
qed

theorem C3_ban_threshold_witness:
  "IsBanned 7 ''10.0.0.1'' (record_failures ''10.0.0.1'' [1, 2, 3] (NewIPBanManager 0 None 3 5 []))
 \<and> \<not> IsBanned 7 ''10.0.0.1'' (record_failures ''10.0.0.1'' [1, 2] (NewIPBanManager 0 None 3 5 []))"
  using C3_ban_threshold [of "NewIPBanManager 0 None 3 5 []" "''10.0.0.1''" "[1, 2, 3]" 7 "[1, 2]" 7]
  by (simp add: NewIPBanManager_def loadFromFile_def go_get_bool_def)

text \<open>
  Claim C6 (exclusivity of counter and ban), as stated: in every state reached from the
  empty tracker by \<open>IPBanManager_RecordFailure\<close>, \<open>IPBanManager_RecordSuccess\<close> and \<open>UnbanIP\<close>, no IP has both a
  failure counter and an unexpired ban. It fails: \<open>IPBanManager_RecordFailure\<close> does not look at
  \<open>bannedIPs\<close>, so a fourth failure of an IP banned by its third (\<open>maxFailures = 3\<close>,
  ban of 300) starts a new counter while the ban is live.
\<close>

theorem C6_counterexample:
  "counted_and_banned 4
     (run_ban_ops [(1, Failure ''10.0.0.1''), (2, Failure ''10.0.0.1''),
                   (3, Failure ''10.0.0.1''), (4, Failure ''10.0.0.1'')]
        (NewIPBanManager 0 None 3 300 []))
     ''10.0.0.1''"
  by (simp add: counted_and_banned_def run_ban_ops_def NewIPBanManager_def loadFromFile_def
      IPBanManager_RecordFailure_def go_get_bool_def go_get_int_def Let_def)

text \<open>
  Claim C6, amended: the exclusivity holds in every state reached from the empty tracker by
  a run of \<open>IPBanManager_RecordFailure\<close>, \<open>IPBanManager_RecordSuccess\<close> and \<open>UnbanIP\<close> whose instants do not
  decrease and in which \<open>IPBanManager_RecordFailure(ip)\<close> is only called while \<open>IsBanned(ip)\<close> is
  false (what the admission check of a connection establishes before it authenticates),
  read at any instant \<open>now\<close> not before the last operation.
\<close>

theorem C6_exclusive_when_admitted:
  assumes "sorted (map fst ops)"
      and "failures_admitted ops (NewIPBanManager t0 None n d wl)"
      and "\<forall>t \<in> set (map fst ops). t \<le> now"
  shows "\<not> counted_and_banned now (run_ban_ops ops (NewIPBanManager t0 None n d wl)) ip"
proof -
  let ?m = "NewIPBanManager t0 None n d wl"
  have e: "\<And>t. \<forall>ip. \<not> counted_and_banned t ?m ip"
    by (simp add: counted_and_banned_def NewIPBanManager_def loadFromFile_def)
  show ?thesis
  proof (cases ops)
    case Nil
    then show ?thesis using e by (simp add: run_ban_ops_def)
  next
    case (Cons a rest)
    have b: "\<forall>t \<in> set (map fst ops). fst a \<le> t \<and> t \<le> now"
      using assms(1,3) Cons by auto
    have "fst a \<le> now" using assms(3) Cons by simp
    then show ?thesis using run_exclusive [OF assms(1,2) e b] by blast
  qed
qed

theorem C6_exclusive_when_admitted_witness:
  "\<not> counted_and_banned 400
      (run_ban_ops [(1, Failure ''10.0.0.1''), (2, Failure ''10.0.0.1''),
                    (3, Failure ''10.0.0.1''), (304, Failure ''10.0.0.1'')]
         (NewIPBanManager 0 None 3 300 []))
      ''10.0.0.1''"
  using C6_exclusive_when_admitted [of
      "[(1, Failure ''10.0.0.1''), (2, Failure ''10.0.0.1''),
        (3, Failure ''10.0.0.1''), (304, Failure ''10.0.0.1'')]" 0 3 300 "[]" 400 "''10.0.0.1''"]
  by (simp add: NewIPBanManager_def loadFromFile_def IPBanManager_RecordFailure_def IsBanned_def
      go_get_bool_def go_get_int_def Let_def)

text \<open>
  Claim C7 (persistence round trip), as stated: after saving and loading into a fresh
  tracker, \<open>failureCounts\<close> equals the positive entries of the original's. It fails: a ban
  that is live when saved and expired when loaded comes back as a failure counter holding
  the count that triggered the ban (the \<open>else if record.FailCount > 0\<close> branch of
  \<open>loadFromFile\<close>). Three failures at 10, 20 and 50 with \<open>maxFailures = 3\<close> and a ban of
  50 leave no counter; saved at 60 and loaded at 150, the counter is 3.
\<close>

theorem C7_counterexample:
  "map_of (failureCounts
      (reload 60 150 []
         (record_failures ''10.0.0.1'' [10, 20, 50] (NewIPBanManager 0 None 3 50 []))))
      ''10.0.0.1'' = Some 3
 \<and> positive_count
      (failureCounts (record_failures ''10.0.0.1'' [10, 20, 50] (NewIPBanManager 0 None 3 50 [])))
      ''10.0.0.1'' = None"
  by (simp add: reload_def NewIPBanManager_def loadFromFile_def saveToFile_def
      record_failures_def IPBanManager_RecordFailure_def go_get_bool_def go_get_int_def Let_def
      ban_record_of_def positive_count_def)

text \<open>
  Claim C7, amended. For a tracker state (its maps having one entry per key), saved at
  \<open>t_save\<close> (after Go's zero instant) and loaded at \<open>t_load \<ge> t_save\<close> into a fresh
  tracker with the same limits: the banned IPs listed at \<open>t_load\<close> are the same set as the
  original lists at \<open>t_load\<close>; no ban that has expired by \<open>t_load\<close> is restored; and the
  failure counter of an IP is
  \<^item> absent when its ban is still live at \<open>t_load\<close>,
  \<^item> the positive count recorded with its ban when that ban was live at \<open>t_save\<close> and
    has expired by \<open>t_load\<close>,
  \<^item> its positive counter in the original otherwise.
\<close>

theorem C7_persistence_round_trip:
  assumes "distinct (map fst (bannedIPs m))"
      and "distinct (map fst (failureCounts m))"
      and "0 < t_save" and "t_save \<le> t_load"
  shows "set (GetBannedIPs t_load (reload t_save t_load wl m)) = set (GetBannedIPs t_load m)
       \<and> map_of (failureCounts (reload t_save t_load wl m)) ip
           = (case map_of (bannedIPs m) ip of
                Some e \<Rightarrow>
                  if t_load < e then None
                  else if t_save < e then positive_count (bannedFailCount m) ip
                  else positive_count (failureCounts m) ip
              | None \<Rightarrow> positive_count (failureCounts m) ip)
       \<and> (\<forall>e. map_of (bannedIPs (reload t_save t_load wl m)) ip = Some e \<longrightarrow> t_load < e)"
proof -
  have b: "\<And>ip. map_of (bannedIPs (reload t_save t_load wl m)) ip
           = (case map_of (bannedIPs m) ip of
                Some e \<Rightarrow> if t_load < e then Some e else None
              | None \<Rightarrow> None)"
    by (rule reload_lookup(1) [OF assms])
  have "set (GetBannedIPs t_load (reload t_save t_load wl m)) = set (GetBannedIPs t_load m)"
    unfolding GetBannedIPs_set [OF reload_distinct] GetBannedIPs_set [OF assms(1)] b
    by (auto split: option.splits if_splits)
  moreover have "\<forall>e. map_of (bannedIPs (reload t_save t_load wl m)) ip = Some e \<longrightarrow> t_load < e"
    unfolding b by (auto split: option.splits if_splits)
  ultimately show ?thesis
    using reload_lookup(2) [OF assms, of wl ip] by simp
qed

theorem C7_persistence_round_trip_witness:
  "set (GetBannedIPs 150 (reload 60 150 []
      \<lparr>bannedIPs = [(''10.0.0.1'', 100), (''10.0.0.2'', 200)],
       bannedFailCount = [(''10.0.0.1'', 3), (''10.0.0.2'', 3)],
       failureCounts = [(''10.0.0.3'', 2)],
       maxFailures = 3, banDuration = 50, whitelist = []\<rparr>)) = {''10.0.0.2''}
 \<and> map_of (failureCounts (reload 60 150 []
      \<lparr>bannedIPs = [(''10.0.0.1'', 100), (''10.0.0.2'', 200)],
       bannedFailCount = [(''10.0.0.1'', 3), (''10.0.0.2'', 3)],
       failureCounts = [(''10.0.0.3'', 2)],
       maxFailures = 3, banDuration = 50, whitelist = []\<rparr>)) ''10.0.0.3'' = Some 2"
  using C7_persistence_round_trip [of
      "\<lparr>bannedIPs = [(''10.0.0.1'', 100), (''10.0.0.2'', 200)],
       bannedFailCount = [(''10.0.0.1'', 3), (''10.0.0.2'', 3)],
       failureCounts = [(''10.0.0.3'', 2)],
       maxFailures = 3, banDuration = 50, whitelist = []\<rparr>" 60 150 "[]" "''10.0.0.3''"]
  by (simp add: GetBannedIPs_def positive_count_def)

text \<open>
  Claim C8 (whitelist immunity). For an IP of the whitelist the tracker was built with,
  a run of \<open>IPBanManager_RecordFailure\<close> calls of any length leaves the tracker exactly as it was (so
  the calls add the IP to none of \<open>failureCounts\<close>, \<open>bannedIPs\<close>, \<open>bannedFailCount\<close>),
  and \<open>IsBanned\<close> is false after it, at every instant. The run \<open>ts\<close> is arbitrary, so
  this covers every point of a longer run.
\<close>

theorem C8_whitelist_immunity:
  assumes "ip \<in> set wl"
      and "whitelist m = whitelist (NewIPBanManager t0 saved n d wl)"
  shows "record_failures ip ts m = m \<and> \<not> IsBanned t ip (record_failures ip ts m)"
proof -
  have "whitelist m = fold (\<lambda>ip wl. AList.update ip True wl) wl []"
    using assms(2) by (cases saved) (simp_all add: NewIPBanManager_def loadFromFile_def restore_fields)
  then have w: "go_get_bool (whitelist m) ip"
    using assms(1) by (simp add: configured_whitelist_iff)
  then show ?thesis
    by (simp add: record_failures_whitelisted IsBanned_def)
qed

theorem C8_whitelist_immunity_witness:
  "record_failures ''192.168.1.1'' [1, 2, 3, 4, 5]
      (NewIPBanManager 0 None 2 5 [''192.168.1.1'', ''192.168.1.2''])
     = NewIPBanManager 0 None 2 5 [''192.168.1.1'', ''192.168.1.2'']
 \<and> \<not> IsBanned 6 ''192.168.1.1''
      (record_failures ''192.168.1.1'' [1, 2, 3, 4, 5]
         (NewIPBanManager 0 None 2 5 [''192.168.1.1'', ''192.168.1.2'']))"
proof -
  have h: "''192.168.1.1'' \<in> set [''192.168.1.1'', ''192.168.1.2'']" by simp
  show ?thesis by (rule C8_whitelist_immunity [OF h refl])
qed

section \<open>Properties of the circuit breaker\<close>

lemma opened_breaker_eq:
  "opened_breaker =
    \<lparr>state = StateOpen, failureThreshold = 50, windowSize = 1000,
     minRequests = 5, breakDuration = 500,
     requests =
       [\<lparr>timestamp = 1, success = True\<rparr>, \<lparr>timestamp = 2, success = True\<rparr>,
        \<lparr>timestamp = 3, success = True\<rparr>, \<lparr>timestamp = 4, success = False\<rparr>,
        \<lparr>timestamp = 5, success = False\<rparr>, \<lparr>timestamp = 6, success = False\<rparr>,
        \<lparr>timestamp = 7, success = False\<rparr>, \<lparr>timestamp = 8, success = False\<rparr>],
     lastStateChange = 6, consecutiveSuccesses = 0, halfOpenMaxRequests = 3\<rparr>"
  by (simp add: opened_breaker_def breaker_failures_def record_successes_def NewCircuitBreaker_def
      CircuitBreaker_RecordFailure_def CircuitBreaker_RecordSuccess_def cleanup_def shouldOpen_def Let_def)

text \<open>
  While the \<open>state\<close> field is \<open>StateOpen\<close>, recording an outcome changes neither the
  field nor the stamp: both methods test the field for \<open>StateHalfOpen\<close>, which only
  \<open>Call\<close> stores, and \<open>shouldOpen\<close> is false unless the field is \<open>StateClosed\<close>.
\<close>

lemma RecordSuccess_keeps_Open:
  "state cb = StateOpen \<Longrightarrow>
     state (CircuitBreaker_RecordSuccess now cb) = StateOpen
   \<and> lastStateChange (CircuitBreaker_RecordSuccess now cb) = lastStateChange cb"
  by (simp add: CircuitBreaker_RecordSuccess_def cleanup_def Let_def)

lemma RecordFailure_keeps_Open:
  "state cb = StateOpen \<Longrightarrow>
     state (CircuitBreaker_RecordFailure now cb) = StateOpen
   \<and> lastStateChange (CircuitBreaker_RecordFailure now cb) = lastStateChange cb"
  by (simp add: CircuitBreaker_RecordFailure_def cleanup_def shouldOpen_def Let_def)

text \<open>
  Through \<open>Call\<close> the recovery does happen: the first call after the break stores
  \<open>StateHalfOpen\<close>, and the third success closes the breaker and refreshes the stamp; a
  failing first call reopens it with the stamp refreshed.
\<close>

lemma Call_commits_recovery:
  "state (snd (Call 700 700 (None :: unit option) opened_breaker)) = StateHalfOpen
 \<and> state (snd (Call 702 702 (None :: unit option)
            (snd (Call 701 701 (None :: unit option)
               (snd (Call 700 700 (None :: unit option) opened_breaker)))))) = StateClosed
 \<and> lastStateChange (snd (Call 702 702 (None :: unit option)
            (snd (Call 701 701 (None :: unit option)
               (snd (Call 700 700 (None :: unit option) opened_breaker)))))) = 702
 \<and> state (snd (Call 700 700 (Some ()) opened_breaker)) = StateOpen
 \<and> lastStateChange (snd (Call 700 700 (Some ()) opened_breaker)) = 700"
  by (simp add: opened_breaker_eq Call_def CircuitBreaker_GetState_def
      CircuitBreaker_RecordFailure_def CircuitBreaker_RecordSuccess_def
      cleanup_def shouldOpen_def Let_def)

text \<open>
  Claim C1 (breaker recovery). The first part holds: an open breaker whose break has
  elapsed reports \<open>StateHalfOpen\<close>. The rest does not hold on the code. In the set-up of
  the repository's own tests the breaker opens at 6; at 700 the break of 500 has elapsed.
  Three \<open>RecordSuccess\<close> calls then leave the field at \<open>StateOpen\<close>, and \<open>GetState\<close>
  still answers \<open>StateHalfOpen\<close>, where the claim and \<open>TestCircuitBreaker_HalfOpen\<close>
  expect \<open>StateClosed\<close>. One \<open>RecordFailure\<close> at 700 leaves the stamp at 6, so
  \<open>IsOpen\<close> is false afterwards, where the claim and
  \<open>TestCircuitBreaker_HalfOpenFailure\<close> expect an open breaker with the stamp at 700.
\<close>

theorem C1_recovery_not_committed:
  "CircuitBreaker_IsOpen 9 opened_breaker
 \<and> CircuitBreaker_GetState 700 opened_breaker = StateHalfOpen
 \<and> state (record_successes [700, 701, 702] opened_breaker) = StateOpen
 \<and> CircuitBreaker_GetState 703 (record_successes [700, 701, 702] opened_breaker) = StateHalfOpen
 \<and> state (CircuitBreaker_RecordFailure 700 opened_breaker) = StateOpen
 \<and> lastStateChange (CircuitBreaker_RecordFailure 700 opened_breaker) = 6
 \<and> \<not> CircuitBreaker_IsOpen 701 (CircuitBreaker_RecordFailure 700 opened_breaker)"
  by (simp add: opened_breaker_eq CircuitBreaker_IsOpen_def CircuitBreaker_GetState_def
      record_successes_def CircuitBreaker_RecordFailure_def CircuitBreaker_RecordSuccess_def
      cleanup_def shouldOpen_def Let_def)

section \<open>Properties of the rate limiter\<close>

lemma allow_per_ip_fields:
  "rl_enabled (snd (allow_per_ip now ip r)) = rl_enabled r
 \<and> perIPLimit (snd (allow_per_ip now ip r)) = perIPLimit r
 \<and> perIPBurst (snd (allow_per_ip now ip r)) = perIPBurst r
 \<and> globalLimiter (snd (allow_per_ip now ip r)) = globalLimiter r"
  by (simp add: allow_per_ip_def getIPLimiter_def Let_def split: option.splits prod.splits)

lemma Allow_fields:
  "rl_enabled (snd (RateLimitMiddleware_Allow now now' ip r)) = rl_enabled r
 \<and> perIPLimit (snd (RateLimitMiddleware_Allow now now' ip r)) = perIPLimit r
 \<and> perIPBurst (snd (RateLimitMiddleware_Allow now now' ip r)) = perIPBurst r
 \<and> (globalLimiter (snd (RateLimitMiddleware_Allow now now' ip r)) = None \<longleftrightarrow> globalLimiter r = None)"
  by (simp add: RateLimitMiddleware_Allow_def allow_per_ip_fields split: option.splits prod.splits)

lemma allow_calls_fields:
  "rl_enabled (allow_calls calls r) = rl_enabled r
 \<and> perIPLimit (allow_calls calls r) = perIPLimit r
 \<and> perIPBurst (allow_calls calls r) = perIPBurst r
 \<and> (globalLimiter (allow_calls calls r) = None \<longleftrightarrow> globalLimiter r = None)"
proof (induction calls arbitrary: r)
  case Nil
  then show ?case by (simp add: allow_calls_def)
next
  case (Cons c calls)
  obtain now now' ip where c: "c = (now, now', ip)" by (cases c)
  have "allow_calls (c # calls) r = allow_calls calls (snd (RateLimitMiddleware_Allow now now' ip r))"
    using c by (simp add: allow_calls_def)
  then show ?case using Cons.IH [of "snd (RateLimitMiddleware_Allow now now' ip r)"] Allow_fields [of now now' ip r]
    by simp
qed

lemma allow_per_ip_eq:
  assumes "perIPLimit r = p" and "perIPBurst r = b"
  shows "allow_per_ip now ip r =
           (fst (Limiter_Allow now (ip_bucket p b ip r)),
            r\<lparr>perIPLimiters := AList.update ip (snd (Limiter_Allow now (ip_bucket p b ip r))) (perIPLimiters r)\<rparr>)"
  using assms
  by (simp add: allow_per_ip_def getIPLimiter_def ip_bucket_def Let_def
      split: option.splits prod.splits)

text \<open>
  The product \<open>perIPRPS * 2\<close> in Go's \<open>int\<close> is twice the rate as long as the rate
  lies from \<open>- (2 ^ 62)\<close> up to \<open>2 ^ 62 - 1\<close>. At \<open>2 ^ 62\<close> it wraps to \<open>- (2 ^ 63)\<close>,
  and a bucket with that burst never gives a token.
\<close>

lemma go_int_double:
  assumes "- (2 ^ 62) \<le> x" and "x < 2 ^ 62"
  shows "go_int (x * 2) = 2 * x"
proof -
  have "0 \<le> x * 2 + 9223372036854775808" and "x * 2 + 9223372036854775808 < 18446744073709551616"
    using assms by simp_all
  then have "(x * 2 + 9223372036854775808) mod 18446744073709551616 = x * 2 + 9223372036854775808"
    by (rule mod_pos_pos_trivial)
  then show ?thesis by (simp add: go_int_def)
qed

lemma burst_wraps:
  "perIPBurst (NewRateLimitMiddleware True 1 4611686018427387904) = - 9223372036854775808
 \<and> fst (RateLimitMiddleware_Allow 0 0 ''10.0.0.1'' (NewRateLimitMiddleware True 1 4611686018427387904))
     = False"
  by (simp add: NewRateLimitMiddleware_def go_int_def RateLimitMiddleware_Allow_def
      allow_per_ip_def getIPLimiter_def Limiter_Allow_def NewLimiter_def Let_def)

text \<open>
  Claim C9 (what \<open>Allow\<close> does, and in which order). For the middleware \<open>r\<close> reached
  from \<open>NewRateLimitMiddleware enabled globalRPS perIPRPS\<close> by any history of \<open>Allow\<close>
  calls, and a further call for \<open>ip\<close>:
  \<^item> disabled: the answer is true and \<open>r\<close> is unchanged;
  \<^item> enabled: a global bucket exists exactly when \<open>globalRPS\<close> is positive; if it exists
    and has no token, the answer is false and only the global bucket has changed (the
    per-IP map is as before: the bucket of \<open>ip\<close> is neither read nor created);
  \<^item> otherwise the answer is whether the bucket of \<open>ip\<close> gives a token, and that
    bucket is stored under \<open>ip\<close>. The bucket is the stored one, or on first use a new
    one of rate \<open>perIPRPS\<close> and of the burst \<open>perIPRPS * 2\<close> that Go's \<open>int\<close> computes;
  \<^item> for every rate from \<open>- (2 ^ 62)\<close> up to \<open>2 ^ 62 - 1\<close> that burst is
    \<open>2 * perIPRPS\<close>: the bucket is the stored one, or on first use a new one of rate
    \<open>perIPRPS\<close> and burst \<open>2 * perIPRPS\<close>.
\<close>

theorem C9_allow_semantics:
  assumes "r = allow_calls calls (NewRateLimitMiddleware enabled globalRPS perIPRPS)"
  shows "(\<not> enabled \<longrightarrow> RateLimitMiddleware_Allow now now' ip r = (True, r))
       \<and> (enabled \<longrightarrow>
            (globalLimiter r \<noteq> None \<longleftrightarrow> 0 < globalRPS)
          \<and> (case globalLimiter r of
               Some g \<Rightarrow>
                 (if \<not> fst (Limiter_Allow now g)
                  then RateLimitMiddleware_Allow now now' ip r
                         = (False, r\<lparr>globalLimiter := Some (snd (Limiter_Allow now g))\<rparr>)
                  else RateLimitMiddleware_Allow now now' ip r
                         = (fst (Limiter_Allow now' (ip_bucket perIPRPS (go_int (perIPRPS * 2)) ip r)),
                            r\<lparr>globalLimiter := Some (snd (Limiter_Allow now g)),
                              perIPLimiters := AList.update ip
                                 (snd (Limiter_Allow now' (ip_bucket perIPRPS (go_int (perIPRPS * 2)) ip r)))
                                 (perIPLimiters r)\<rparr>))
             | None \<Rightarrow>
                 RateLimitMiddleware_Allow now now' ip r
                   = (fst (Limiter_Allow now' (ip_bucket perIPRPS (go_int (perIPRPS * 2)) ip r)),
                      r\<lparr>perIPLimiters := AList.update ip
                           (snd (Limiter_Allow now' (ip_bucket perIPRPS (go_int (perIPRPS * 2)) ip r)))
                           (perIPLimiters r)\<rparr>)))
       \<and> (- (2 ^ 62) \<le> perIPRPS \<and> perIPRPS < 2 ^ 62 \<longrightarrow>
            ip_bucket perIPRPS (go_int (perIPRPS * 2)) ip r
              = (case map_of (perIPLimiters r) ip of
                   Some limiter \<Rightarrow> limiter
                 | None \<Rightarrow> NewLimiter perIPRPS (2 * perIPRPS)))"
proof -
  let ?r0 = "NewRateLimitMiddleware enabled globalRPS perIPRPS"
  let ?b = "go_int (perIPRPS * 2)"
  have f: "rl_enabled r = enabled" "perIPLimit r = perIPRPS" "perIPBurst r = ?b"
          "globalLimiter r = None \<longleftrightarrow> \<not> (enabled \<and> 0 < globalRPS)"
    using allow_calls_fields [of calls ?r0] assms by (simp_all add: NewRateLimitMiddleware_def)
  have per: "\<And>r'. perIPLimit r' = perIPRPS \<Longrightarrow> perIPBurst r' = ?b \<Longrightarrow>
      allow_per_ip now' ip r' =
           (fst (Limiter_Allow now' (ip_bucket perIPRPS ?b ip r')),
            r'\<lparr>perIPLimiters := AList.update ip (snd (Limiter_Allow now' (ip_bucket perIPRPS ?b ip r')))
                                   (perIPLimiters r')\<rparr>)"
    by (rule allow_per_ip_eq)
  have ib: "\<And>g'. ip_bucket perIPRPS ?b ip (r\<lparr>globalLimiter := g'\<rparr>) = ip_bucket perIPRPS ?b ip r"
    by (simp add: ip_bucket_def)
  have bound: "- (2 ^ 62) \<le> perIPRPS \<and> perIPRPS < 2 ^ 62 \<longrightarrow>
            ip_bucket perIPRPS ?b ip r
              = (case map_of (perIPLimiters r) ip of
                   Some limiter \<Rightarrow> limiter
                 | None \<Rightarrow> NewLimiter perIPRPS (2 * perIPRPS))"
    using go_int_double [of perIPRPS] by (simp add: ip_bucket_def)
  have main: "(\<not> enabled \<longrightarrow> RateLimitMiddleware_Allow now now' ip r = (True, r))
       \<and> (enabled \<longrightarrow>
            (globalLimiter r \<noteq> None \<longleftrightarrow> 0 < globalRPS)
          \<and> (case globalLimiter r of
               Some g \<Rightarrow>
                 (if \<not> fst (Limiter_Allow now g)
                  then RateLimitMiddleware_Allow now now' ip r
                         = (False, r\<lparr>globalLimiter := Some (snd (Limiter_Allow now g))\<rparr>)
                  else RateLimitMiddleware_Allow now now' ip r
                         = (fst (Limiter_Allow now' (ip_bucket perIPRPS ?b ip r)),
                            r\<lparr>globalLimiter := Some (snd (Limiter_Allow now g)),
                              perIPLimiters := AList.update ip
                                 (snd (Limiter_Allow now' (ip_bucket perIPRPS ?b ip r)))
                                 (perIPLimiters r)\<rparr>))
             | None \<Rightarrow>
                 RateLimitMiddleware_Allow now now' ip r
                   = (fst (Limiter_Allow now' (ip_bucket perIPRPS ?b ip r)),
                      r\<lparr>perIPLimiters := AList.update ip
                           (snd (Limiter_Allow now' (ip_bucket perIPRPS ?b ip r)))
                           (perIPLimiters r)\<rparr>)))"
  proof (cases enabled)
    case False
    then show ?thesis using f(1) by (simp add: RateLimitMiddleware_Allow_def)
  next
    case True
    show ?thesis
    proof (cases "globalLimiter r")
      case None
      then show ?thesis using True f per [of r]
        by (simp add: RateLimitMiddleware_Allow_def)
    next
      case (Some g)
      then show ?thesis using True f per [of "r\<lparr>globalLimiter := Some (snd (Limiter_Allow now g))\<rparr>"] ib
        by (auto simp: RateLimitMiddleware_Allow_def split: prod.splits)
    qed
  qed
  from main bound show ?thesis by blast
qed

theorem C9_allow_semantics_witness:
  "fst (RateLimitMiddleware_Allow 0 0 ''10.0.0.2''
          (allow_calls [(0, 0, ''10.0.0.1''), (0, 0, ''10.0.0.1'')] (NewRateLimitMiddleware True 1 5)))
     = False
 \<and> map_of (perIPLimiters (snd (RateLimitMiddleware_Allow 0 0 ''10.0.0.2''
          (allow_calls [(0, 0, ''10.0.0.1''), (0, 0, ''10.0.0.1'')] (NewRateLimitMiddleware True 1 5)))))
       ''10.0.0.2'' = None
 \<and> fst (RateLimitMiddleware_Allow 0 0 ''10.0.0.2''
          (allow_calls [(0, 0, ''10.0.0.1'')] (NewRateLimitMiddleware True 1 5)))
     = True
 \<and> ip_bucket 5 (go_int (5 * 2)) ''10.0.0.2''
      (allow_calls [(0, 0, ''10.0.0.1'')] (NewRateLimitMiddleware True 1 5))
     = NewLimiter 5 10
 \<and> RateLimitMiddleware_Allow 0 0 ''10.0.0.2'' (NewRateLimitMiddleware False 1 5)
     = (True, NewRateLimitMiddleware False 1 5)"
  using C9_allow_semantics [of _ "[(0, 0, ''10.0.0.1''), (0, 0, ''10.0.0.1'')]" True 1 5 0 0 "''10.0.0.2''", OF refl]
        C9_allow_semantics [of _ "[(0, 0, ''10.0.0.1'')]" True 1 5 0 0 "''10.0.0.2''", OF refl]
        C9_allow_semantics [of _ "[]" False 1 5 0 0 "''10.0.0.2''", OF refl]
  by (simp add: allow_calls_def NewRateLimitMiddleware_def RateLimitMiddleware_Allow_def go_int_def
      allow_per_ip_def getIPLimiter_def Limiter_Allow_def NewLimiter_def ip_bucket_def Let_def)

section \<open>Properties of the frontends\<close>

lemma sendError_status:
  "take 12 (sendError 503 m) = ''HTTP/1.1 503'' \<and> take 12 (sendError 403 m) = ''HTTP/1.1 403''
 \<and> take 12 (sendError 429 m) = ''HTTP/1.1 429''"
  by (simp add: sendError_def decimal.simps)

lemma breaker_open_now: "CircuitBreakerMiddleware_IsOpen 9 breaker_open"
  by (simp add: breaker_open_def CircuitBreakerMiddleware_IsOpen_def CircuitBreaker_IsOpen_def
      opened_breaker_eq)

lemma breaker_off_closed: "\<not> CircuitBreakerMiddleware_IsOpen t breaker_off"
  by (simp add: breaker_off_def CircuitBreakerMiddleware_IsOpen_def)

lemma ban_live_now: "IsBlocked 9 ''10.0.0.1'' ban_live"
  by (simp add: ban_live_def IsBlocked_def IsBanned_def record_failures_def NewIPBanManager_def
      loadFromFile_def IPBanManager_RecordFailure_def go_get_bool_def go_get_int_def Let_def)

lemma ban_off_passes: "\<not> IsBlocked t ip ban_off"
  by (simp add: ban_off_def IsBlocked_def)

lemma limiter_empty_eq:
  "limiter_empty =
     \<lparr>rl_enabled = True,
      globalLimiter = Some \<lparr>lim_rate = 1, lim_burst = 2, lim_tokens = 0, lim_last = 0\<rparr>,
      perIPLimiters = [(''10.0.0.1'', \<lparr>lim_rate = 5, lim_burst = 10, lim_tokens = 8000000000, lim_last = 0\<rparr>)],
      perIPLimit = 5, perIPBurst = 10\<rparr>"
  by (simp add: limiter_empty_def allow_calls_def NewRateLimitMiddleware_def go_int_def
      RateLimitMiddleware_Allow_def allow_per_ip_def getIPLimiter_def Limiter_Allow_def
      NewLimiter_def Let_def)

lemma limiter_empty_now:
  "RateLimitMiddleware_Allow 9 9 ''10.0.0.1'' limiter_empty
     = (False, limiter_empty\<lparr>globalLimiter :=
                 Some \<lparr>lim_rate = 1, lim_burst = 2, lim_tokens = 9, lim_last = 9\<rparr>\<rparr>)"
  by (simp add: limiter_empty_eq RateLimitMiddleware_Allow_def Limiter_Allow_def Let_def)

lemma client_fields:
  "clientIP client = ''10.0.0.1''" "at_breaker client = 9" "at_ban client = 9"
  "at_global client = 9" "at_per_ip client = 9"
  by (simp_all add: client_def conn_at_def)

text \<open>
  Claim C2 (order of the admission checks). On both frontends and whatever the client
  sends (the request, or the bytes, are arbitrary):
  \<^item> if the breaker is open, the HTTP handler writes the 503 response, the SOCKS5 handler
    writes nothing, and the proxy state is unchanged;
  \<^item> else if the client IP is banned, the HTTP handler writes the 403 response, the SOCKS5
    handler writes nothing, and the proxy state is unchanged (no token is taken);
  \<^item> else if the rate limiter refuses, the HTTP handler writes the 429 response, the
    SOCKS5 handler writes nothing, and only the rate limiter has changed.
  In each case nothing else happens on the connection.
\<close>

theorem C2_admission_order:
  "(CircuitBreakerMiddleware_IsOpen (at_breaker c) (h_circuitBreaker h) \<longrightarrow>
      HTTPProxy_handleConnection b64 h c request
        = ([Write (sendError 503 ''Service temporarily unavailable'')], h))
 \<and> (\<not> CircuitBreakerMiddleware_IsOpen (at_breaker c) (h_circuitBreaker h)
      \<and> IsBlocked (at_ban c) (clientIP c) (h_ipBan h) \<longrightarrow>
      HTTPProxy_handleConnection b64 h c request = ([Write (sendError 403 ''Access denied'')], h))
 \<and> (\<not> CircuitBreakerMiddleware_IsOpen (at_breaker c) (h_circuitBreaker h)
      \<and> \<not> IsBlocked (at_ban c) (clientIP c) (h_ipBan h)
      \<and> \<not> fst (RateLimitMiddleware_Allow (at_global c) (at_per_ip c) (clientIP c) (h_rateLimit h)) \<longrightarrow>
      HTTPProxy_handleConnection b64 h c request
        = ([Write (sendError 429 ''Too many requests'')],
           h\<lparr>h_rateLimit := snd (RateLimitMiddleware_Allow (at_global c) (at_per_ip c) (clientIP c)
                                   (h_rateLimit h))\<rparr>))
 \<and> (CircuitBreakerMiddleware_IsOpen (at_breaker c) (s_circuitBreaker s) \<longrightarrow>
      SOCKS5Proxy_handleConnection ip_string s c inp = ([], s))
 \<and> (\<not> CircuitBreakerMiddleware_IsOpen (at_breaker c) (s_circuitBreaker s)
      \<and> IsBlocked (at_ban c) (clientIP c) (s_ipBan s) \<longrightarrow>
      SOCKS5Proxy_handleConnection ip_string s c inp = ([], s))
 \<and> (\<not> CircuitBreakerMiddleware_IsOpen (at_breaker c) (s_circuitBreaker s)
      \<and> \<not> IsBlocked (at_ban c) (clientIP c) (s_ipBan s)
      \<and> \<not> fst (RateLimitMiddleware_Allow (at_global c) (at_per_ip c) (clientIP c) (s_rateLimit s)) \<longrightarrow>
      SOCKS5Proxy_handleConnection ip_string s c inp
        = ([], s\<lparr>s_rateLimit := snd (RateLimitMiddleware_Allow (at_global c) (at_per_ip c) (clientIP c)
                                       (s_rateLimit s))\<rparr>))
 \<and> take 12 (sendError 503 ''Service temporarily unavailable'') = ''HTTP/1.1 503''
 \<and> take 12 (sendError 403 ''Access denied'') = ''HTTP/1.1 403''
 \<and> take 12 (sendError 429 ''Too many requests'') = ''HTTP/1.1 429''"
  by (simp add: HTTPProxy_handleConnection_def SOCKS5Proxy_handleConnection_def sendError_status
      split: prod.splits)

theorem C2_admission_order_witness:
  "HTTPProxy_handleConnection (\<lambda>s. None)
       (NewHTTPProxy 8080 ''tcp'' auth_off limiter_empty ban_live breaker_open) client None
     = ([Write (sendError 503 ''Service temporarily unavailable'')],
        NewHTTPProxy 8080 ''tcp'' auth_off limiter_empty ban_live breaker_open)
 \<and> HTTPProxy_handleConnection (\<lambda>s. None)
       (NewHTTPProxy 8080 ''tcp'' auth_off limiter_empty ban_live breaker_off) client None
     = ([Write (sendError 403 ''Access denied'')],
        NewHTTPProxy 8080 ''tcp'' auth_off limiter_empty ban_live breaker_off)
 \<and> fst (HTTPProxy_handleConnection (\<lambda>s. None)
       (NewHTTPProxy 8080 ''tcp'' auth_off limiter_empty ban_off breaker_off) client None)
     = [Write (sendError 429 ''Too many requests'')]
 \<and> SOCKS5Proxy_handleConnection (\<lambda>addr. [])
       (NewSOCKS5Proxy 1080 auth_off limiter_empty ban_live breaker_open) client [5, 1, 0]
     = ([], NewSOCKS5Proxy 1080 auth_off limiter_empty ban_live breaker_open)
 \<and> SOCKS5Proxy_handleConnection (\<lambda>addr. [])
       (NewSOCKS5Proxy 1080 auth_off limiter_empty ban_live breaker_off) client [5, 1, 0]
     = ([], NewSOCKS5Proxy 1080 auth_off limiter_empty ban_live breaker_off)
 \<and> fst (SOCKS5Proxy_handleConnection (\<lambda>addr. [])
       (NewSOCKS5Proxy 1080 auth_off limiter_empty ban_off breaker_off) client [5, 1, 0])
     = []"
proof -
  let ?h1 = "NewHTTPProxy 8080 ''tcp'' auth_off limiter_empty ban_live breaker_open"
  let ?h2 = "NewHTTPProxy 8080 ''tcp'' auth_off limiter_empty ban_live breaker_off"
  let ?h3 = "NewHTTPProxy 8080 ''tcp'' auth_off limiter_empty ban_off breaker_off"
  let ?s1 = "NewSOCKS5Proxy 1080 auth_off limiter_empty ban_live breaker_open"
  let ?s2 = "NewSOCKS5Proxy 1080 auth_off limiter_empty ban_live breaker_off"
  let ?s3 = "NewSOCKS5Proxy 1080 auth_off limiter_empty ban_off breaker_off"
  have 1: "HTTPProxy_handleConnection (\<lambda>s. None) ?h1 client None
             = ([Write (sendError 503 ''Service temporarily unavailable'')], ?h1)"
     and 4: "SOCKS5Proxy_handleConnection (\<lambda>addr. []) ?s1 client [5, 1, 0] = ([], ?s1)"
    using C2_admission_order [of client ?h1 "\<lambda>s. None" None ?s1 "\<lambda>addr. []" "[5, 1, 0]"]
      breaker_open_now
    by (simp_all add: NewHTTPProxy_def NewSOCKS5Proxy_def client_fields)
  have 2: "HTTPProxy_handleConnection (\<lambda>s. None) ?h2 client None
             = ([Write (sendError 403 ''Access denied'')], ?h2)"
     and 5: "SOCKS5Proxy_handleConnection (\<lambda>addr. []) ?s2 client [5, 1, 0] = ([], ?s2)"
    using C2_admission_order [of client ?h2 "\<lambda>s. None" None ?s2 "\<lambda>addr. []" "[5, 1, 0]"]
      breaker_off_closed ban_live_now
    by (simp_all add: NewHTTPProxy_def NewSOCKS5Proxy_def client_fields)
  have 3: "fst (HTTPProxy_handleConnection (\<lambda>s. None) ?h3 client None)
             = [Write (sendError 429 ''Too many requests'')]"
     and 6: "fst (SOCKS5Proxy_handleConnection (\<lambda>addr. []) ?s3 client [5, 1, 0]) = []"
    using C2_admission_order [of client ?h3 "\<lambda>s. None" None ?s3 "\<lambda>addr. []" "[5, 1, 0]"]
      breaker_off_closed ban_off_passes limiter_empty_now
    by (simp_all add: NewHTTPProxy_def NewSOCKS5Proxy_def client_fields)
  from 1 2 3 4 5 6 show ?thesis by blast
qed

lemma parse_bad:
  "bad_credentials b64 req \<Longrightarrow> parseProxyAuth b64 req = ([], [], False)"
  by (auto simp: bad_credentials_def parseProxyAuth_def SplitN_2_def Let_def split: option.splits)

lemma auth_failure:
  assumes "AuthMiddleware_IsEnabled (h_auth h)" and "admitted_http h c"
      and "bad_credentials b64 req \<or> wrong_credentials b64 (h_auth h) req"
  shows "HTTPProxy_handleConnection b64 h c (Some req) = auth_failure_outcome h c"
  using assms parse_bad [of b64 req]
  by (auto simp: HTTPProxy_handleConnection_def admitted_http_def auth_failure_outcome_def
      wrong_credentials_def Let_def split: prod.splits)


lemma record_failures_Cons:
  "record_failures ip (t # ts) m = record_failures ip ts (IPBanManager_RecordFailure t ip m)"
  by (simp add: record_failures_def)

lemma auth_failure_outcome_fields:
  "h_auth (snd (auth_failure_outcome h c)) = h_auth h
 \<and> im_enabled (h_ipBan (snd (auth_failure_outcome h c))) = im_enabled (h_ipBan h)
 \<and> (im_enabled (h_ipBan h) \<longrightarrow>
      manager (h_ipBan (snd (auth_failure_outcome h c)))
        = IPBanManager_RecordFailure (at_ban_record c) (clientIP c) (manager (h_ipBan h)))"
  by (simp add: auth_failure_outcome_def IPBanMiddleware_RecordAuthFailure_def)

lemma failed_connections:
  assumes "AuthMiddleware_IsEnabled (h_auth h)" and "im_enabled (h_ipBan h)"
      and "\<forall>(c, request) \<in> set conns. clientIP c = ip \<and> (\<exists>req. request = Some req \<and> bad_credentials b64 req)"
      and "all_admitted b64 conns h"
  shows "im_enabled (h_ipBan (http_connections b64 conns h))
       \<and> manager (h_ipBan (http_connections b64 conns h))
           = record_failures ip (map (\<lambda>(c, request). at_ban_record c) conns) (manager (h_ipBan h))"
  using assms
proof (induction conns arbitrary: h)
  case Nil
  then show ?case by (simp add: record_failures_def)
next
  case (Cons a conns)
  obtain c request where a: "a = (c, request)" by (cases a)
  from Cons.prems(3) a obtain req where req: "request = Some req" "bad_credentials b64 req" "clientIP c = ip"
    by auto
  from Cons.prems(4) a have adm: "admitted_http h c" by simp
  let ?h' = "snd (HTTPProxy_handleConnection b64 h c request)"
  have step: "HTTPProxy_handleConnection b64 h c request = auth_failure_outcome h c"
    using auth_failure [OF Cons.prems(1) adm] req by simp
  note F = auth_failure_outcome_fields [of h c]
  have 1: "AuthMiddleware_IsEnabled (h_auth ?h')" using step F Cons.prems(1) by simp
  have 2: "im_enabled (h_ipBan ?h')" using step F Cons.prems(2) by simp
  have 3: "\<forall>(c, request) \<in> set conns. clientIP c = ip \<and> (\<exists>req. request = Some req \<and> bad_credentials b64 req)"
    using Cons.prems(3) by simp
  have 4: "all_admitted b64 conns ?h'" using Cons.prems(4) a by simp
  have m: "manager (h_ipBan ?h') = IPBanManager_RecordFailure (at_ban_record c) ip (manager (h_ipBan h))"
    using step F Cons.prems(2) req(3) by simp
  from Cons.IH [OF 1 2 3 4] m a show ?case
    by (simp add: record_failures_Cons)
qed


lemma no_credentials_ban:
  assumes en: "AuthMiddleware_IsEnabled (h_auth h)" "im_enabled (h_ipBan h)"
      and nw: "\<not> go_get_bool (whitelist (manager (h_ipBan h))) ip"
      and nf: "map_of (failureCounts (manager (h_ipBan h))) ip = None"
      and nb: "map_of (bannedIPs (manager (h_ipBan h))) ip = None"
      and pos: "0 < maxFailures (manager (h_ipBan h))"
      and len: "int (length conns) = maxFailures (manager (h_ipBan h))"
      and noh: "\<forall>(c, request) \<in> set conns.
            clientIP c = ip \<and> (\<exists>req. request = Some req \<and> ProxyAuthorization req = [])"
      and adm: "all_admitted b64 conns h"
      and t: "t \<le> at_ban_record (fst (last conns)) + banDuration (manager (h_ipBan h))"
  shows "IsBlocked t ip (h_ipBan (http_connections b64 conns h))"
proof -
  let ?m = "manager (h_ipBan h)"
  let ?ts = "map (\<lambda>(c, request). at_ban_record c) conns"
  have bad: "\<forall>(c, request) \<in> set conns.
            clientIP c = ip \<and> (\<exists>req. request = Some req \<and> bad_credentials b64 req)"
  proof (intro ballI)
    fix x assume x: "x \<in> set conns"
    obtain c request where cr: "x = (c, request)" by (cases x)
    from noh x cr have "clientIP c = ip \<and> (\<exists>req. request = Some req \<and> ProxyAuthorization req = [])"
      by blast
    then show "case x of (c, request) \<Rightarrow>
        clientIP c = ip \<and> (\<exists>req. request = Some req \<and> bad_credentials b64 req)"
      using cr by (auto simp: bad_credentials_def)
  qed
  note R = failed_connections [OF en bad adm]
  from pos len have ne: "conns \<noteq> []" by auto
  have last: "last ?ts = at_ban_record (fst (last conns))"
    using ne by (simp add: last_map split: prod.splits)
  have len': "int (length ?ts) = maxFailures ?m" using len by simp
  have t': "t \<le> last ?ts + banDuration ?m" using t last by simp
  have "IsBanned t ip (record_failures ip ?ts ?m)"
    by (rule threshold_banned [OF nw nf nb pos len' t'])
  then show ?thesis
    using R by (simp add: IsBlocked_def)
qed

lemma failure_below_threshold:
  assumes "\<not> go_get_bool (whitelist m) ip"
      and "go_get_int (failureCounts m) ip + 1 < maxFailures m"
  shows "whitelist (IPBanManager_RecordFailure t ip m) = whitelist m
       \<and> maxFailures (IPBanManager_RecordFailure t ip m) = maxFailures m
       \<and> bannedIPs (IPBanManager_RecordFailure t ip m) = bannedIPs m
       \<and> go_get_int (failureCounts (IPBanManager_RecordFailure t ip m)) ip
           = go_get_int (failureCounts m) ip + 1"
  using assms
  by (simp add: IPBanManager_RecordFailure_def Let_def go_get_int_update_same)

lemma quiet_not_open:
  "breaker_quiet n cm \<Longrightarrow> \<not> CircuitBreakerMiddleware_IsOpen t cm"
  by (auto simp: breaker_quiet_def CircuitBreakerMiddleware_IsOpen_def CircuitBreaker_IsOpen_def)

lemma quiet_step:
  assumes "breaker_quiet (n + 1) cm" and "0 \<le> n"
  shows "breaker_quiet n (CircuitBreakerMiddleware_RecordAuthFailure t cm)"
proof (cases "cm_enabled cm")
  case False
  then show ?thesis
    by (simp add: breaker_quiet_def CircuitBreakerMiddleware_RecordAuthFailure_def)
next
  case True
  let ?cb = "breaker cm"
  let ?kept = "filter (\<lambda>req. t + (- windowSize ?cb) < timestamp req)
                 (requests ?cb @ [\<lparr>timestamp = t, success = False\<rparr>])"
  from assms(1) True have st: "state ?cb = StateClosed"
    and room: "int (length (requests ?cb)) + (n + 1) < minRequests ?cb"
    by (simp_all add: breaker_quiet_def)
  have "length ?kept \<le> length (requests ?cb @ [\<lparr>timestamp = t, success = False\<rparr>])"
    by (rule length_filter_le)
  then have le: "int (length ?kept) \<le> int (length (requests ?cb)) + 1" by simp
  have lt: "int (length ?kept) < minRequests ?cb" using le room assms(2) by linarith
  have rf: "CircuitBreaker_RecordFailure t ?cb = ?cb\<lparr>requests := ?kept\<rparr>"
    using st lt by (simp add: CircuitBreaker_RecordFailure_def cleanup_def shouldOpen_def Let_def)
  have "int (length ?kept) + n < minRequests ?cb" using le room by linarith
  then show ?thesis
    using True st rf
    by (simp add: breaker_quiet_def CircuitBreakerMiddleware_RecordAuthFailure_def)
qed

lemma admitted_quiet:
  assumes "breaker_quiet n (h_circuitBreaker h)" and "\<not> rl_enabled (h_rateLimit h)"
      and "map_of (bannedIPs (manager (h_ipBan h))) (clientIP c) = None"
  shows "admitted_http h c"
  using assms quiet_not_open [of n "h_circuitBreaker h" "at_breaker c"]
  by (simp add: admitted_http_def IsBlocked_def IsBanned_def RateLimitMiddleware_Allow_def)

lemma auth_failure_outcome_filters:
  "h_circuitBreaker (snd (auth_failure_outcome h c))
     = CircuitBreakerMiddleware_RecordAuthFailure (at_breaker_record c) (h_circuitBreaker h)
 \<and> (\<not> rl_enabled (h_rateLimit h) \<longrightarrow> \<not> rl_enabled (h_rateLimit (snd (auth_failure_outcome h c))))"
  by (simp add: auth_failure_outcome_def RateLimitMiddleware_Allow_def)

text \<open>
  With the rate limiter off and a breaker that cannot open during the run, every
  connection of a run of failed authentications below the ban threshold is admitted.
\<close>

lemma all_admitted_quiet:
  assumes "AuthMiddleware_IsEnabled (h_auth h)" and "im_enabled (h_ipBan h)"
      and "breaker_quiet (int (length conns)) (h_circuitBreaker h)"
      and "\<not> rl_enabled (h_rateLimit h)"
      and "\<not> go_get_bool (whitelist (manager (h_ipBan h))) ip"
      and "map_of (bannedIPs (manager (h_ipBan h))) ip = None"
      and "go_get_int (failureCounts (manager (h_ipBan h))) ip + int (length conns)
             \<le> maxFailures (manager (h_ipBan h))"
      and "\<forall>(c, request) \<in> set conns.
             clientIP c = ip \<and> (\<exists>req. request = Some req \<and> bad_credentials b64 req)"
  shows "all_admitted b64 conns h"
  using assms
proof (induction conns arbitrary: h)
  case Nil
  then show ?case by simp
next
  case (Cons a conns)
  obtain c request where a: "a = (c, request)" by (cases a)
  from Cons.prems(8) a obtain req where req: "request = Some req" "bad_credentials b64 req" "clientIP c = ip"
    by auto
  have adm: "admitted_http h c"
    using admitted_quiet [OF Cons.prems(3,4)] Cons.prems(6) req(3) by simp
  let ?h' = "snd (HTTPProxy_handleConnection b64 h c request)"
  have step: "HTTPProxy_handleConnection b64 h c request = auth_failure_outcome h c"
    using auth_failure [OF Cons.prems(1) adm] req by simp
  show ?case
  proof (cases conns)
    case Nil
    then show ?thesis using adm a by simp
  next
    case (Cons b rest)
    then have lt: "go_get_int (failureCounts (manager (h_ipBan h))) ip + 1
                     < maxFailures (manager (h_ipBan h))"
      using Cons.prems(7) by simp
    note F = auth_failure_outcome_fields [of h c]
    note G = auth_failure_outcome_filters [of h c]
    have m: "manager (h_ipBan ?h')
               = IPBanManager_RecordFailure (at_ban_record c) ip (manager (h_ipBan h))"
      using step F Cons.prems(2) req(3) by simp
    note B = failure_below_threshold [OF Cons.prems(5) lt, of "at_ban_record c"]
    have q: "breaker_quiet (int (length conns) + 1) (h_circuitBreaker h)"
      using Cons.prems(3) by (simp add: add.commute)
    have 1: "AuthMiddleware_IsEnabled (h_auth ?h')" using step F Cons.prems(1) by simp
    have 2: "im_enabled (h_ipBan ?h')" using step F Cons.prems(2) by simp
    have 3: "breaker_quiet (int (length conns)) (h_circuitBreaker ?h')"
      using step G quiet_step [OF q, of "at_breaker_record c"] by simp
    have 4: "\<not> rl_enabled (h_rateLimit ?h')" using step G Cons.prems(4) by simp
    have 5: "\<not> go_get_bool (whitelist (manager (h_ipBan ?h'))) ip"
      using m B Cons.prems(5) by simp
    have 6: "map_of (bannedIPs (manager (h_ipBan ?h'))) ip = None"
      using m B Cons.prems(6) by simp
    have 7: "go_get_int (failureCounts (manager (h_ipBan ?h'))) ip + int (length conns)
               \<le> maxFailures (manager (h_ipBan ?h'))"
      using m B Cons.prems(7) by simp
    have 8: "\<forall>(c, request) \<in> set conns.
               clientIP c = ip \<and> (\<exists>req. request = Some req \<and> bad_credentials b64 req)"
      using Cons.prems(8) by simp
    from Cons.IH [OF 1 2 3 4 5 6 7 8] adm a show ?thesis by simp
  qed
qed

text \<open>
  What one recorded failure leaves behind. In the breaker, when the middleware is enabled
  and the window has a positive size: the window pruned at the instant of the call, with
  one failure record appended. In the ban tracker, when the middleware is enabled and the
  IP is not whitelisted: the counter one higher below the threshold, and at the threshold
  the ban with its expiry and triggering count, and no counter.
\<close>

lemma breaker_records_failure:
  assumes "cm_enabled cm" and "0 < windowSize (breaker cm)"
  shows "requests (breaker (CircuitBreakerMiddleware_RecordAuthFailure t cm))
           = filter (\<lambda>r. t - windowSize (breaker cm) < timestamp r) (requests (breaker cm))
             @ [\<lparr>timestamp = t, success = False\<rparr>]"
  using assms
  by (simp add: CircuitBreakerMiddleware_RecordAuthFailure_def CircuitBreaker_RecordFailure_def
      cleanup_def Let_def)

lemma ban_records_failure:
  assumes "im_enabled i" and "\<not> go_get_bool (whitelist (manager i)) ip"
  shows "(go_get_int (failureCounts (manager i)) ip + 1 < maxFailures (manager i) \<longrightarrow>
            map_of (failureCounts (manager (IPBanMiddleware_RecordAuthFailure t ip i))) ip
              = Some (go_get_int (failureCounts (manager i)) ip + 1)
          \<and> bannedIPs (manager (IPBanMiddleware_RecordAuthFailure t ip i)) = bannedIPs (manager i))
       \<and> (maxFailures (manager i) \<le> go_get_int (failureCounts (manager i)) ip + 1 \<longrightarrow>
            map_of (failureCounts (manager (IPBanMiddleware_RecordAuthFailure t ip i))) ip = None
          \<and> map_of (bannedIPs (manager (IPBanMiddleware_RecordAuthFailure t ip i))) ip
              = Some (t + banDuration (manager i))
          \<and> map_of (bannedFailCount (manager (IPBanMiddleware_RecordAuthFailure t ip i))) ip
              = Some (go_get_int (failureCounts (manager i)) ip + 1))"
  using assms
  by (simp add: IPBanMiddleware_RecordAuthFailure_def IPBanManager_RecordFailure_def Let_def
      go_get_int_update_same update_conv' delete_conv')

lemma status_407:
  "take 42 sendProxyAuthRequired = ''HTTP/1.1 407 Proxy Authentication Required''"
  by (simp add: sendProxyAuthRequired_def)

lemma guarded_http_fields:
  "AuthMiddleware_IsEnabled (h_auth guarded_http)"
  "im_enabled (h_ipBan guarded_http)"
  "breaker_quiet 3 (h_circuitBreaker guarded_http)"
  "\<not> rl_enabled (h_rateLimit guarded_http)"
  "\<not> go_get_bool (whitelist (manager (h_ipBan guarded_http))) ip"
  "map_of (bannedIPs (manager (h_ipBan guarded_http))) ip = None"
  "map_of (failureCounts (manager (h_ipBan guarded_http))) ip = None"
  "maxFailures (manager (h_ipBan guarded_http)) = 3"
  "banDuration (manager (h_ipBan guarded_http)) = 300"
  "cm_enabled (h_circuitBreaker guarded_http)"
  "windowSize (breaker (h_circuitBreaker guarded_http)) = 60"
  "requests (breaker (h_circuitBreaker guarded_http)) = []"
  by (simp_all add: guarded_http_def NewHTTPProxy_def AuthMiddleware_IsEnabled_def breaker_on_def
      breaker_quiet_def NewCircuitBreaker_def
      NewRateLimitMiddleware_def NewIPBanManager_def loadFromFile_def go_get_bool_def)

text \<open>
  Claim C10 (absent or malformed credentials are an authentication failure). With
  authentication enabled, take a connection that passes admission and carries a request
  with no \<open>Proxy-Authorization\<close> header, a scheme other than \<open>Basic\<close>, a payload the
  decoder rejects, or a decoded payload without a colon, or one with wrong credentials.
  In all these cases alike:
  \<^item> the handler writes one response and nothing else, and the response starts with
    \<open>HTTP/1.1 407 Proxy Authentication Required\<close>;
  \<^item> if the breaker middleware is enabled (with a window of positive size), the
    breaker's window afterwards is the window pruned at that instant with one failure
    record appended;
  \<^item> if the ban middleware is enabled and the client IP is not whitelisted, the ban
    tracker's counter of the IP is one higher, or, when that reaches \<open>maxFailures\<close>,
    the IP is banned for \<open>banDuration\<close> and its counter removed;
  \<^item> the outcome as a whole is \<open>auth_failure_outcome\<close>, the same in every case.
  Hence, with the ban middleware enabled and an IP that is not whitelisted and has no
  counter and no ban, \<open>maxFailures\<close> admitted connections from it without the header
  leave it banned until the ban expires.
\<close>

theorem C10_missing_credentials_are_failures:
  "(AuthMiddleware_IsEnabled (h_auth h) \<and> admitted_http h c
      \<and> (bad_credentials b64 req \<or> wrong_credentials b64 (h_auth h) req)
    \<longrightarrow> HTTPProxy_handleConnection b64 h c (Some req) = auth_failure_outcome h c
      \<and> (\<exists>response. fst (HTTPProxy_handleConnection b64 h c (Some req)) = [Write response]
            \<and> take 42 response = ''HTTP/1.1 407 Proxy Authentication Required'')
      \<and> (cm_enabled (h_circuitBreaker h) \<and> 0 < windowSize (breaker (h_circuitBreaker h)) \<longrightarrow>
            requests (breaker (h_circuitBreaker (snd (HTTPProxy_handleConnection b64 h c (Some req)))))
              = filter (\<lambda>r. at_breaker_record c - windowSize (breaker (h_circuitBreaker h))
                               < timestamp r)
                  (requests (breaker (h_circuitBreaker h)))
                @ [\<lparr>timestamp = at_breaker_record c, success = False\<rparr>])
      \<and> (im_enabled (h_ipBan h) \<and> \<not> go_get_bool (whitelist (manager (h_ipBan h))) (clientIP c) \<longrightarrow>
            (go_get_int (failureCounts (manager (h_ipBan h))) (clientIP c) + 1
               < maxFailures (manager (h_ipBan h)) \<longrightarrow>
               map_of (failureCounts (manager (h_ipBan
                   (snd (HTTPProxy_handleConnection b64 h c (Some req)))))) (clientIP c)
                 = Some (go_get_int (failureCounts (manager (h_ipBan h))) (clientIP c) + 1)
             \<and> bannedIPs (manager (h_ipBan (snd (HTTPProxy_handleConnection b64 h c (Some req)))))
                 = bannedIPs (manager (h_ipBan h)))
          \<and> (maxFailures (manager (h_ipBan h))
               \<le> go_get_int (failureCounts (manager (h_ipBan h))) (clientIP c) + 1 \<longrightarrow>
               map_of (failureCounts (manager (h_ipBan
                   (snd (HTTPProxy_handleConnection b64 h c (Some req)))))) (clientIP c) = None
             \<and> map_of (bannedIPs (manager (h_ipBan
                   (snd (HTTPProxy_handleConnection b64 h c (Some req)))))) (clientIP c)
                 = Some (at_ban_record c + banDuration (manager (h_ipBan h)))
             \<and> map_of (bannedFailCount (manager (h_ipBan
                   (snd (HTTPProxy_handleConnection b64 h c (Some req)))))) (clientIP c)
                 = Some (go_get_int (failureCounts (manager (h_ipBan h))) (clientIP c) + 1))))
 \<and> (AuthMiddleware_IsEnabled (h_auth h) \<and> im_enabled (h_ipBan h)
      \<and> \<not> go_get_bool (whitelist (manager (h_ipBan h))) ip
      \<and> map_of (failureCounts (manager (h_ipBan h))) ip = None
      \<and> map_of (bannedIPs (manager (h_ipBan h))) ip = None
      \<and> 0 < maxFailures (manager (h_ipBan h))
      \<and> int (length conns) = maxFailures (manager (h_ipBan h))
      \<and> (\<forall>(c, request) \<in> set conns.
            clientIP c = ip \<and> (\<exists>req. request = Some req \<and> ProxyAuthorization req = []))
      \<and> all_admitted b64 conns h
      \<and> t \<le> at_ban_record (fst (last conns)) + banDuration (manager (h_ipBan h))
    \<longrightarrow> IsBlocked t ip (h_ipBan (http_connections b64 conns h)))"
proof (intro conjI)
  show "AuthMiddleware_IsEnabled (h_auth h) \<and> admitted_http h c
      \<and> (bad_credentials b64 req \<or> wrong_credentials b64 (h_auth h) req)
    \<longrightarrow> HTTPProxy_handleConnection b64 h c (Some req) = auth_failure_outcome h c
      \<and> (\<exists>response. fst (HTTPProxy_handleConnection b64 h c (Some req)) = [Write response]
            \<and> take 42 response = ''HTTP/1.1 407 Proxy Authentication Required'')
      \<and> (cm_enabled (h_circuitBreaker h) \<and> 0 < windowSize (breaker (h_circuitBreaker h)) \<longrightarrow>
            requests (breaker (h_circuitBreaker (snd (HTTPProxy_handleConnection b64 h c (Some req)))))
              = filter (\<lambda>r. at_breaker_record c - windowSize (breaker (h_circuitBreaker h))
                               < timestamp r)
                  (requests (breaker (h_circuitBreaker h)))
                @ [\<lparr>timestamp = at_breaker_record c, success = False\<rparr>])
      \<and> (im_enabled (h_ipBan h) \<and> \<not> go_get_bool (whitelist (manager (h_ipBan h))) (clientIP c) \<longrightarrow>
            (go_get_int (failureCounts (manager (h_ipBan h))) (clientIP c) + 1
               < maxFailures (manager (h_ipBan h)) \<longrightarrow>
               map_of (failureCounts (manager (h_ipBan
                   (snd (HTTPProxy_handleConnection b64 h c (Some req)))))) (clientIP c)
                 = Some (go_get_int (failureCounts (manager (h_ipBan h))) (clientIP c) + 1)
             \<and> bannedIPs (manager (h_ipBan (snd (HTTPProxy_handleConnection b64 h c (Some req)))))
                 = bannedIPs (manager (h_ipBan h)))
          \<and> (maxFailures (manager (h_ipBan h))
               \<le> go_get_int (failureCounts (manager (h_ipBan h))) (clientIP c) + 1 \<longrightarrow>
               map_of (failureCounts (manager (h_ipBan
                   (snd (HTTPProxy_handleConnection b64 h c (Some req)))))) (clientIP c) = None
             \<and> map_of (bannedIPs (manager (h_ipBan
                   (snd (HTTPProxy_handleConnection b64 h c (Some req)))))) (clientIP c)
                 = Some (at_ban_record c + banDuration (manager (h_ipBan h)))
             \<and> map_of (bannedFailCount (manager (h_ipBan
                   (snd (HTTPProxy_handleConnection b64 h c (Some req)))))) (clientIP c)
                 = Some (go_get_int (failureCounts (manager (h_ipBan h))) (clientIP c) + 1)))"
  proof (intro impI)
    assume H: "AuthMiddleware_IsEnabled (h_auth h) \<and> admitted_http h c
      \<and> (bad_credentials b64 req \<or> wrong_credentials b64 (h_auth h) req)"
    then have out: "HTTPProxy_handleConnection b64 h c (Some req) = auth_failure_outcome h c"
      by (elim conjE) (rule auth_failure, assumption+)
    have ev: "fst (auth_failure_outcome h c) = [Write sendProxyAuthRequired]"
      and cb: "h_circuitBreaker (snd (auth_failure_outcome h c))
                 = CircuitBreakerMiddleware_RecordAuthFailure (at_breaker_record c) (h_circuitBreaker h)"
      and ib: "h_ipBan (snd (auth_failure_outcome h c))
                 = IPBanMiddleware_RecordAuthFailure (at_ban_record c) (clientIP c) (h_ipBan h)"
      by (simp_all add: auth_failure_outcome_def)
    have r407: "\<exists>response. fst (HTTPProxy_handleConnection b64 h c (Some req)) = [Write response]
            \<and> take 42 response = ''HTTP/1.1 407 Proxy Authentication Required''"
      using out ev status_407 by simp
    have brk: "cm_enabled (h_circuitBreaker h) \<and> 0 < windowSize (breaker (h_circuitBreaker h)) \<longrightarrow>
            requests (breaker (h_circuitBreaker (snd (HTTPProxy_handleConnection b64 h c (Some req)))))
              = filter (\<lambda>r. at_breaker_record c - windowSize (breaker (h_circuitBreaker h))
                               < timestamp r)
                  (requests (breaker (h_circuitBreaker h)))
                @ [\<lparr>timestamp = at_breaker_record c, success = False\<rparr>]"
      using out cb breaker_records_failure [of "h_circuitBreaker h" "at_breaker_record c"] by simp
    have ban: "im_enabled (h_ipBan h) \<and> \<not> go_get_bool (whitelist (manager (h_ipBan h))) (clientIP c) \<longrightarrow>
            (go_get_int (failureCounts (manager (h_ipBan h))) (clientIP c) + 1
               < maxFailures (manager (h_ipBan h)) \<longrightarrow>
               map_of (failureCounts (manager (h_ipBan
                   (snd (HTTPProxy_handleConnection b64 h c (Some req)))))) (clientIP c)
                 = Some (go_get_int (failureCounts (manager (h_ipBan h))) (clientIP c) + 1)
             \<and> bannedIPs (manager (h_ipBan (snd (HTTPProxy_handleConnection b64 h c (Some req)))))
                 = bannedIPs (manager (h_ipBan h)))
          \<and> (maxFailures (manager (h_ipBan h))
               \<le> go_get_int (failureCounts (manager (h_ipBan h))) (clientIP c) + 1 \<longrightarrow>
               map_of (failureCounts (manager (h_ipBan
                   (snd (HTTPProxy_handleConnection b64 h c (Some req)))))) (clientIP c) = None
             \<and> map_of (bannedIPs (manager (h_ipBan
                   (snd (HTTPProxy_handleConnection b64 h c (Some req)))))) (clientIP c)
                 = Some (at_ban_record c + banDuration (manager (h_ipBan h)))
             \<and> map_of (bannedFailCount (manager (h_ipBan
                   (snd (HTTPProxy_handleConnection b64 h c (Some req)))))) (clientIP c)
                 = Some (go_get_int (failureCounts (manager (h_ipBan h))) (clientIP c) + 1))"
    proof (intro impI)
      assume E: "im_enabled (h_ipBan h) \<and> \<not> go_get_bool (whitelist (manager (h_ipBan h))) (clientIP c)"
      then have e1: "im_enabled (h_ipBan h)"
        and e2: "\<not> go_get_bool (whitelist (manager (h_ipBan h))) (clientIP c)" by simp_all
      show "(go_get_int (failureCounts (manager (h_ipBan h))) (clientIP c) + 1
               < maxFailures (manager (h_ipBan h)) \<longrightarrow>
               map_of (failureCounts (manager (h_ipBan
                   (snd (HTTPProxy_handleConnection b64 h c (Some req)))))) (clientIP c)
                 = Some (go_get_int (failureCounts (manager (h_ipBan h))) (clientIP c) + 1)
             \<and> bannedIPs (manager (h_ipBan (snd (HTTPProxy_handleConnection b64 h c (Some req)))))
                 = bannedIPs (manager (h_ipBan h)))
          \<and> (maxFailures (manager (h_ipBan h))
               \<le> go_get_int (failureCounts (manager (h_ipBan h))) (clientIP c) + 1 \<longrightarrow>
               map_of (failureCounts (manager (h_ipBan
                   (snd (HTTPProxy_handleConnection b64 h c (Some req)))))) (clientIP c) = None
             \<and> map_of (bannedIPs (manager (h_ipBan
                   (snd (HTTPProxy_handleConnection b64 h c (Some req)))))) (clientIP c)
                 = Some (at_ban_record c + banDuration (manager (h_ipBan h)))
             \<and> map_of (bannedFailCount (manager (h_ipBan
                   (snd (HTTPProxy_handleConnection b64 h c (Some req)))))) (clientIP c)
                 = Some (go_get_int (failureCounts (manager (h_ipBan h))) (clientIP c) + 1))"
        unfolding out ib
        by (rule ban_records_failure [OF e1 e2])
    qed
    from out r407 brk ban
    show "HTTPProxy_handleConnection b64 h c (Some req) = auth_failure_outcome h c
      \<and> (\<exists>response. fst (HTTPProxy_handleConnection b64 h c (Some req)) = [Write response]
            \<and> take 42 response = ''HTTP/1.1 407 Proxy Authentication Required'')
      \<and> (cm_enabled (h_circuitBreaker h) \<and> 0 < windowSize (breaker (h_circuitBreaker h)) \<longrightarrow>
            requests (breaker (h_circuitBreaker (snd (HTTPProxy_handleConnection b64 h c (Some req)))))
              = filter (\<lambda>r. at_breaker_record c - windowSize (breaker (h_circuitBreaker h))
                               < timestamp r)
                  (requests (breaker (h_circuitBreaker h)))
                @ [\<lparr>timestamp = at_breaker_record c, success = False\<rparr>])
      \<and> (im_enabled (h_ipBan h) \<and> \<not> go_get_bool (whitelist (manager (h_ipBan h))) (clientIP c) \<longrightarrow>
            (go_get_int (failureCounts (manager (h_ipBan h))) (clientIP c) + 1
               < maxFailures (manager (h_ipBan h)) \<longrightarrow>
               map_of (failureCounts (manager (h_ipBan
                   (snd (HTTPProxy_handleConnection b64 h c (Some req)))))) (clientIP c)
                 = Some (go_get_int (failureCounts (manager (h_ipBan h))) (clientIP c) + 1)
             \<and> bannedIPs (manager (h_ipBan (snd (HTTPProxy_handleConnection b64 h c (Some req)))))
                 = bannedIPs (manager (h_ipBan h)))
          \<and> (maxFailures (manager (h_ipBan h))
               \<le> go_get_int (failureCounts (manager (h_ipBan h))) (clientIP c) + 1 \<longrightarrow>
               map_of (failureCounts (manager (h_ipBan
                   (snd (HTTPProxy_handleConnection b64 h c (Some req)))))) (clientIP c) = None
             \<and> map_of (bannedIPs (manager (h_ipBan
                   (snd (HTTPProxy_handleConnection b64 h c (Some req)))))) (clientIP c)
                 = Some (at_ban_record c + banDuration (manager (h_ipBan h)))
             \<and> map_of (bannedFailCount (manager (h_ipBan
                   (snd (HTTPProxy_handleConnection b64 h c (Some req)))))) (clientIP c)
                 = Some (go_get_int (failureCounts (manager (h_ipBan h))) (clientIP c) + 1)))"
      by (intro conjI)
  qed
next
  show "AuthMiddleware_IsEnabled (h_auth h) \<and> im_enabled (h_ipBan h)
      \<and> \<not> go_get_bool (whitelist (manager (h_ipBan h))) ip
      \<and> map_of (failureCounts (manager (h_ipBan h))) ip = None
      \<and> map_of (bannedIPs (manager (h_ipBan h))) ip = None
      \<and> 0 < maxFailures (manager (h_ipBan h))
      \<and> int (length conns) = maxFailures (manager (h_ipBan h))
      \<and> (\<forall>(c, request) \<in> set conns.
            clientIP c = ip \<and> (\<exists>req. request = Some req \<and> ProxyAuthorization req = []))
      \<and> all_admitted b64 conns h
      \<and> t \<le> at_ban_record (fst (last conns)) + banDuration (manager (h_ipBan h))
    \<longrightarrow> IsBlocked t ip (h_ipBan (http_connections b64 conns h))"
    by (intro impI, elim conjE) (rule no_credentials_ban, assumption+)
qed

theorem C10_missing_credentials_are_failures_witness:
  "HTTPProxy_handleConnection (\<lambda>s. None) guarded_http (conn_at 1 ''10.0.0.1'' (\<lambda>n a. True)) (Some no_header)
     = auth_failure_outcome guarded_http (conn_at 1 ''10.0.0.1'' (\<lambda>n a. True))
 \<and> (\<exists>response. fst (HTTPProxy_handleConnection (\<lambda>s. None) guarded_http
                        (conn_at 1 ''10.0.0.1'' (\<lambda>n a. True)) (Some no_header)) = [Write response]
        \<and> take 42 response = ''HTTP/1.1 407 Proxy Authentication Required'')
 \<and> requests (breaker (h_circuitBreaker (snd (HTTPProxy_handleConnection (\<lambda>s. None) guarded_http
                        (conn_at 1 ''10.0.0.1'' (\<lambda>n a. True)) (Some no_header)))))
     = [\<lparr>timestamp = 1, success = False\<rparr>]
 \<and> map_of (failureCounts (manager (h_ipBan (snd (HTTPProxy_handleConnection (\<lambda>s. None) guarded_http
                        (conn_at 1 ''10.0.0.1'' (\<lambda>n a. True)) (Some no_header)))))) ''10.0.0.1''
     = Some 1
 \<and> IsBlocked 100 ''10.0.0.1''
      (h_ipBan (http_connections (\<lambda>s. None)
         [(conn_at 1 ''10.0.0.1'' (\<lambda>n a. True), Some no_header),
          (conn_at 2 ''10.0.0.1'' (\<lambda>n a. True), Some no_header),
          (conn_at 3 ''10.0.0.1'' (\<lambda>n a. True), Some no_header)] guarded_http))"
proof -
  let ?b = "\<lambda>s::string. None :: string option"
  let ?c = "\<lambda>t. conn_at t ''10.0.0.1'' (\<lambda>n a. True)"
  let ?conns = "[(?c 1, Some no_header), (?c 2, Some no_header), (?c 3, Some no_header)]"
  let ?h' = "snd (HTTPProxy_handleConnection ?b guarded_http (?c 1) (Some no_header))"
  have bad: "bad_credentials ?b no_header"
    by (simp add: bad_credentials_def no_header_def)
  have from_ip: "\<forall>(c, request) \<in> set ?conns.
      clientIP c = ''10.0.0.1'' \<and> (\<exists>req. request = Some req \<and> bad_credentials ?b req)"
    using bad by (simp add: conn_at_def)
  have no_hdr: "\<forall>(c, request) \<in> set ?conns.
      clientIP c = ''10.0.0.1'' \<and> (\<exists>req. request = Some req \<and> ProxyAuthorization req = [])"
    by (simp add: conn_at_def no_header_def)
  have cnt: "go_get_int (failureCounts (manager (h_ipBan guarded_http))) ''10.0.0.1''
               + int (length ?conns) \<le> maxFailures (manager (h_ipBan guarded_http))"
    by (simp add: guarded_http_fields go_get_int_def)
  have quiet: "breaker_quiet (int (length ?conns)) (h_circuitBreaker guarded_http)"
    using guarded_http_fields(3) by simp
  have adm: "all_admitted ?b ?conns guarded_http"
    by (rule all_admitted_quiet [OF guarded_http_fields(1,2) quiet guarded_http_fields(4-6) cnt from_ip])
  have adm1: "admitted_http guarded_http (?c 1)"
    using adm by simp
  have t: "100 \<le> at_ban_record (fst (last ?conns)) + banDuration (manager (h_ipBan guarded_http))"
    by (simp add: guarded_http_fields conn_at_def)
  have len: "int (length ?conns) = maxFailures (manager (h_ipBan guarded_http))"
    by (simp add: guarded_http_fields)
  have pos: "0 < maxFailures (manager (h_ipBan guarded_http))"
    by (simp add: guarded_http_fields)
  have win: "0 < windowSize (breaker (h_circuitBreaker guarded_http))"
    by (simp add: guarded_http_fields)
  have ip1: "clientIP (?c 1) = ''10.0.0.1''" "at_breaker_record (?c 1) = 1" "at_ban_record (?c 1) = 1"
    by (simp_all add: conn_at_def)
  have below: "go_get_int (failureCounts (manager (h_ipBan guarded_http))) ''10.0.0.1'' + 1
                 < maxFailures (manager (h_ipBan guarded_http))"
    by (simp add: guarded_http_fields go_get_int_def)
  have zero: "go_get_int (failureCounts (manager (h_ipBan guarded_http))) ''10.0.0.1'' = 0"
    by (simp add: guarded_http_fields go_get_int_def)
  note T = C10_missing_credentials_are_failures [of guarded_http "?c 1" ?b no_header
      "''10.0.0.1''" ?conns 100]
  from T guarded_http_fields(1) adm1 bad
  have A: "HTTPProxy_handleConnection ?b guarded_http (?c 1) (Some no_header)
             = auth_failure_outcome guarded_http (?c 1)"
    and R: "\<exists>response. fst (HTTPProxy_handleConnection ?b guarded_http (?c 1) (Some no_header))
                = [Write response]
              \<and> take 42 response = ''HTTP/1.1 407 Proxy Authentication Required''"
    and W: "cm_enabled (h_circuitBreaker guarded_http)
              \<and> 0 < windowSize (breaker (h_circuitBreaker guarded_http)) \<longrightarrow>
            requests (breaker (h_circuitBreaker ?h'))
              = filter (\<lambda>r. at_breaker_record (?c 1) - windowSize (breaker (h_circuitBreaker guarded_http))
                               < timestamp r)
                  (requests (breaker (h_circuitBreaker guarded_http)))
                @ [\<lparr>timestamp = at_breaker_record (?c 1), success = False\<rparr>]"
    and C: "im_enabled (h_ipBan guarded_http)
              \<and> \<not> go_get_bool (whitelist (manager (h_ipBan guarded_http))) (clientIP (?c 1)) \<longrightarrow>
            (go_get_int (failureCounts (manager (h_ipBan guarded_http))) (clientIP (?c 1)) + 1
               < maxFailures (manager (h_ipBan guarded_http)) \<longrightarrow>
               map_of (failureCounts (manager (h_ipBan ?h'))) (clientIP (?c 1))
                 = Some (go_get_int (failureCounts (manager (h_ipBan guarded_http))) (clientIP (?c 1)) + 1)
             \<and> bannedIPs (manager (h_ipBan ?h')) = bannedIPs (manager (h_ipBan guarded_http)))"
    by blast+
  from W guarded_http_fields(10) win
  have W': "requests (breaker (h_circuitBreaker ?h')) = [\<lparr>timestamp = 1, success = False\<rparr>]"
    by (simp add: guarded_http_fields ip1)
  from C guarded_http_fields(2,5) below
  have C': "map_of (failureCounts (manager (h_ipBan ?h'))) ''10.0.0.1'' = Some 1"
    by (simp add: ip1 zero)
  from T guarded_http_fields(1,2,5,6,7) pos len no_hdr adm t
  have B: "IsBlocked 100 ''10.0.0.1'' (h_ipBan (http_connections ?b ?conns guarded_http))"
    by blast
  from A R W' C' B show ?thesis by blast
qed

text \<open>
  The network of every dial: the HTTP handler dials on \<open>h.network\<close> only, the SOCKS5
  handler on \<open>"tcp"\<close> only, whatever the client sends.
\<close>

lemma http_serve_dials: "list_all (dials_on (h_network h)) (http_serve h c req)"
  by (simp add: http_serve_def handleConnect_def handleHTTP_def dials_on_def Let_def)

lemma http_dials_configured_network:
  "list_all (dials_on (h_network h)) (fst (HTTPProxy_handleConnection b64 h c request))"
proof -
  have s: "\<And>h'. h_network h' = h_network h \<Longrightarrow> list_all (dials_on (h_network h)) (http_serve h' c req)" for req
    using http_serve_dials by metis
  show ?thesis
    by (auto simp: HTTPProxy_handleConnection_def dials_on_def Let_def s
        split: prod.splits option.splits)
qed

lemma authenticatePassword_dials:
  "list_all (dials_on n) (events ss) \<Longrightarrow> list_all (dials_on n) (events (snd (authenticatePassword c ss)))"
  by (auto simp: authenticatePassword_def emit_def dials_on_def Let_def split: option.splits prod.splits)

lemma handshake_dials:
  "list_all (dials_on n) (events ss) \<Longrightarrow> list_all (dials_on n) (events (snd (handshake c ss)))"
  by (auto simp: handshake_def emit_def dials_on_def Let_def authenticatePassword_dials
      split: option.splits prod.splits)

lemma connect_target_dials:
  "list_all (dials_on ''tcp'') (events ss) \<Longrightarrow>
   list_all (dials_on ''tcp'') (events (snd (connect_target c atyp addr ss)))"
  by (auto simp: connect_target_def emit_def sendReply_def dials_on_def Let_def
      split: option.splits prod.splits)

lemma handleRequest_dials:
  "list_all (dials_on ''tcp'') (events ss) \<Longrightarrow>
   list_all (dials_on ''tcp'') (events (snd (handleRequest ip_string c ss)))"
  by (auto simp: handleRequest_def emit_def sendReply_def dials_on_def Let_def connect_target_dials
      split: option.splits prod.splits)

lemma socks5_dials_tcp_always:
  "list_all (dials_on ''tcp'') (fst (SOCKS5Proxy_handleConnection ip_string s c inp))"
proof -
  have h: "\<And>s1. list_all (dials_on ''tcp'') (events (snd (handshake c \<lparr>unread = inp, events = [], proxy = s1\<rparr>)))"
    by (rule handshake_dials) simp
  show ?thesis
    by (auto simp: SOCKS5Proxy_handleConnection_def Let_def split: prod.splits option.splits)
       (metis h handleRequest_dials snd_conv)+
qed


text \<open>
  Claim C4 (the configured network family on outbound dials) holds for the HTTP frontend,
  whose two dials pass \<open>h.network\<close>, and not for the SOCKS5 frontend, whose dial passes
  the constant \<open>"tcp"\<close>. Take a host on which an address is reachable on every network
  but \<open>tcp4\<close>, and the target \<open>2001:db8::1\<close>, port 443. The HTTP proxy configured with
  \<open>tcp4\<close> dials with \<open>tcp4\<close> and answers 502; the SOCKS5 proxy of the same server issues
  its dial with \<open>tcp\<close>. What follows the dial (here the success reply and the relay) is
  the answer of the connection's \<open>dial\<close> function, which stands for the host's network;
  the network argument of the dial does not depend on it (\<open>socks5_dials_tcp_always\<close>).
  The address text that this dial is given is the subject of claim C5.
\<close>

theorem C4_socks5_dials_tcp:
  "fst (HTTPProxy_handleConnection b64 (open_http ''tcp4'')
          (conn_at 0 ''10.0.0.9'' (\<lambda>network address. network \<noteq> ''tcp4''))
          (Some \<lparr>Method = ''CONNECT'', Host = ''[2001:db8::1]:443'', ProxyAuthorization = []\<rparr>))
     = [DialTimeout ''tcp4'' ''[2001:db8::1]:443'',
        Write (sendError 502 ''Failed to connect to target'')]
 \<and> fst (SOCKS5Proxy_handleConnection ip_string open_socks5
          (conn_at 0 ''10.0.0.9'' (\<lambda>network address. network \<noteq> ''tcp4''))
          ([0x05, 0x01, 0x00] @ [0x05, 0x01, 0x00, 0x04] @ ipv6_example @ [0x01, 0xBB]))
     = [Write [0x05, 0x00],
        DialTimeout ''tcp'' (ip_string ipv6_example @ '':443''),
        Write [0x05, 0x00, 0x00, 0x01, 0, 0, 0, 0, 0, 0],
        Relay]"
  by (simp add: HTTPProxy_handleConnection_def SOCKS5Proxy_handleConnection_def open_http_def
      open_socks5_def NewHTTPProxy_def NewSOCKS5Proxy_def auth_off_def ban_off_def breaker_off_def
      NewRateLimitMiddleware_def RateLimitMiddleware_Allow_def conn_at_def
      CircuitBreakerMiddleware_IsOpen_def IsBlocked_def AuthMiddleware_IsEnabled_def
      http_serve_def handleConnect_def handshake_def handleRequest_def connect_target_def
      ReadFull_def emit_def sendReply_def ipv6_example_def decimal.simps
      socks5Version_def authNone_def authPassword_def authNoAccept_def cmdConnect_def
      atypIPv4_def atypDomain_def atypIPv6_def repSuccess_def Let_def)

theorem C4_socks5_dials_tcp_witness:
  "fst (HTTPProxy_handleConnection (\<lambda>s. None) (open_http ''tcp4'')
          (conn_at 0 ''10.0.0.9'' (\<lambda>network address. network \<noteq> ''tcp4''))
          (Some \<lparr>Method = ''CONNECT'', Host = ''[2001:db8::1]:443'', ProxyAuthorization = []\<rparr>))
     = [DialTimeout ''tcp4'' ''[2001:db8::1]:443'',
        Write (sendError 502 ''Failed to connect to target'')]
 \<and> fst (SOCKS5Proxy_handleConnection (\<lambda>addr. ''2001:db8::1'') open_socks5
          (conn_at 0 ''10.0.0.9'' (\<lambda>network address. network \<noteq> ''tcp4''))
          ([0x05, 0x01, 0x00] @ [0x05, 0x01, 0x00, 0x04] @ ipv6_example @ [0x01, 0xBB]))
     = [Write [0x05, 0x00],
        DialTimeout ''tcp'' ''2001:db8::1:443'',
        Write [0x05, 0x00, 0x00, 0x01, 0, 0, 0, 0, 0, 0],
        Relay]"
  using C4_socks5_dials_tcp [of "\<lambda>s. None" "\<lambda>addr. ''2001:db8::1''"] by simp

text \<open>
  For every request with address type 4, the first event of \<open>handleRequest\<close> is the
  dial, and its address is the text of the sixteen bytes, a colon and the decimal port.
\<close>

lemma ipv6_target_is_concatenation:
  assumes "length addr = 16"
  shows "hd (events (snd (handleRequest ip_string c
            \<lparr>unread = [0x05, 0x01, rsv, 0x04] @ addr @ [p1, p2] @ later, events = [], proxy = s\<rparr>)))
           = DialTimeout ''tcp'' (ip_string addr @ '':'' @ decimal (unat p1 * 256 + unat p2))"
  using assms
  by (simp add: handleRequest_def connect_target_def ReadFull_def emit_def sendReply_def
      socks5Version_def cmdConnect_def atypIPv4_def atypDomain_def atypIPv6_def Let_def)

text \<open>
  Claim C5 (joining an IPv6 target with its port) does not hold on the code. For the
  request \<open>05 01 00 04\<close>, the sixteen bytes of \<open>2001:db8::1\<close> and port 443, the address
  passed to the dial is the text of the literal, a colon and the port (with Go's text
  form, \<open>2001:db8::1:443\<close>), not the bracketed \<open>[2001:db8::1]:443\<close>. The events after
  the dial are those of a \<open>dial\<close> function that accepts every address; the address
  given to the dial is the same for every \<open>dial\<close> function
  (\<open>ipv6_target_is_concatenation\<close>).
\<close>

theorem C5_socks5_target_not_bracketed:
  "handleRequest ip_string (conn_at 0 ''10.0.0.9'' (\<lambda>network address. True))
     \<lparr>unread = [0x05, 0x01, 0x00, 0x04] @ ipv6_example @ [0x01, 0xBB], events = [], proxy = open_socks5\<rparr>
     = (None,
        \<lparr>unread = [],
         events = [DialTimeout ''tcp'' (ip_string ipv6_example @ '':'' @ ''443''),
                   Write [0x05, 0x00, 0x00, 0x01, 0, 0, 0, 0, 0, 0],
                   Relay],
         proxy = open_socks5\<rparr>)
 \<and> ip_string ipv6_example @ '':'' @ ''443'' \<noteq> ''['' @ ip_string ipv6_example @ '']:'' @ ''443''"
proof -
  have "length (ip_string ipv6_example @ '':'' @ ''443'')
          \<noteq> length (''['' @ ip_string ipv6_example @ '']:'' @ ''443'')"
    by simp
  then have ne: "ip_string ipv6_example @ '':'' @ ''443'' \<noteq> ''['' @ ip_string ipv6_example @ '']:'' @ ''443''"
    by metis
  have "handleRequest ip_string (conn_at 0 ''10.0.0.9'' (\<lambda>network address. True))
     \<lparr>unread = [0x05, 0x01, 0x00, 0x04] @ ipv6_example @ [0x01, 0xBB], events = [], proxy = open_socks5\<rparr>
     = (None,
        \<lparr>unread = [],
         events = [DialTimeout ''tcp'' (ip_string ipv6_example @ '':'' @ ''443''),
                   Write [0x05, 0x00, 0x00, 0x01, 0, 0, 0, 0, 0, 0],
                   Relay],
         proxy = open_socks5\<rparr>)"
    by (simp add: handleRequest_def connect_target_def ReadFull_def emit_def sendReply_def
        ipv6_example_def decimal.simps conn_at_def
        socks5Version_def cmdConnect_def atypIPv4_def atypDomain_def atypIPv6_def repSuccess_def
        Let_def)
  with ne show ?thesis by blast
qed

theorem C5_socks5_target_not_bracketed_witness:
  "events (snd (handleRequest (\<lambda>addr. ''2001:db8::1'') (conn_at 0 ''10.0.0.9'' (\<lambda>network address. True))
     \<lparr>unread = [0x05, 0x01, 0x00, 0x04] @ ipv6_example @ [0x01, 0xBB], events = [],
      proxy = open_socks5\<rparr>))
     = [DialTimeout ''tcp'' ''2001:db8::1:443'',
        Write [0x05, 0x00, 0x00, 0x01, 0, 0, 0, 0, 0, 0],
        Relay]"
  using C5_socks5_target_not_bracketed [of "\<lambda>addr. ''2001:db8::1''"] by simp

end
